theory Spec2Isabelle
  imports Complex_Main "HOL-Library.Sublist"
begin

section \<open>Common types (pkg/common/types, pkg/common/types/enum, pkg/common/errors)\<close>

text \<open>
  The Go enumerations are integer types with named constants. Of the severity, the analysis
  status and the action type the engine only ever assigns the named constants, compares a
  value with one of them and prints it with \<open>String()\<close>, where every value outside the
  named ones behaves like the \<open>Unknown\<close> constant, so each of these three is a datatype of
  its constants.
\<close>

datatype IssueSeverity =
  IssueSeverityUnknown | IssueSeverityInfo | IssueSeverityWarning
  | IssueSeverityError | IssueSeverityCritical

fun IssueSeverity_String :: "IssueSeverity \<Rightarrow> string" where
  "IssueSeverity_String IssueSeverityInfo = ''Info''"
| "IssueSeverity_String IssueSeverityWarning = ''Warning''"
| "IssueSeverity_String IssueSeverityError = ''Error''"
| "IssueSeverity_String IssueSeverityCritical = ''Critical''"
| "IssueSeverity_String IssueSeverityUnknown = ''Unknown''"

datatype AnalysisStatus =
  AnalysisStatusPending | AnalysisStatusRunning | AnalysisStatusCompleted
  | AnalysisStatusFailed | AnalysisStatusSkipped

datatype ActionType = ActionTypeUnknown | ActionTypeSuggestion | ActionTypeAutomated

fun ActionType_String :: "ActionType \<Rightarrow> string" where
  "ActionType_String ActionTypeSuggestion = ''Suggestion''"
| "ActionType_String ActionTypeAutomated = ''Automated''"
| "ActionType_String ActionTypeUnknown = ''Unknown''"

text \<open>
  \<open>DataSourceType\<close> is the key type of the collected data, where every integer is a key
  of its own, so it stays the integer type, with its constants numbered from zero as
  \<open>iota\<close> numbers them.
\<close>

type_synonym DataSourceType = int

abbreviation DataSourceTypeUnknown :: DataSourceType where
  "DataSourceTypeUnknown \<equiv> 0"

abbreviation DataSourceTypeKubernetesAPI :: DataSourceType where
  "DataSourceTypeKubernetesAPI \<equiv> 1"

abbreviation DataSourceTypeBusinessSDK :: DataSourceType where
  "DataSourceTypeBusinessSDK \<equiv> 2"

abbreviation DataSourceTypeLog :: DataSourceType where
  "DataSourceTypeLog \<equiv> 3"

abbreviation DataSourceTypeMetric :: DataSourceType where
  "DataSourceTypeMetric \<equiv> 4"

abbreviation DataSourceTypeEvent :: DataSourceType where
  "DataSourceTypeEvent \<equiv> 5"

text \<open>
  A value of Go's \<open>interface{}\<close> (collected payloads, the values of option, context and
  payload maps). The engine stores and forwards such values and never inspects them.
\<close>

datatype any = AnyNil | AnyString string | AnyInt int | AnyOpaque nat

type_synonym options = "string \<rightharpoonup> any"

text \<open>\<open>time.Time\<close> and \<open>time.Duration\<close>, in nanoseconds.\<close>

type_synonym Time = int
type_synonym Duration = int

subsection \<open>Errors\<close>

type_synonym ErrorCode = string

definition ErrorCodeUnknown :: ErrorCode where
  "ErrorCodeUnknown = ''UNKNOWN''"

definition ErrorCodeLLMProviderError :: ErrorCode where
  "ErrorCodeLLMProviderError = ''LLM_PROVIDER_ERROR''"

definition ErrorCodeActionExecutionFailed :: ErrorCode where
  "ErrorCodeActionExecutionFailed = ''ACTION_EXECUTION_FAILED''"

definition ErrorCodeInvalidInput :: ErrorCode where
  "ErrorCodeInvalidInput = ''INVALID_INPUT''"

definition ErrorCodeNotFound :: ErrorCode where
  "ErrorCodeNotFound = ''NOT_FOUND''"

text \<open>
  A Go \<open>error\<close> is either the package's own \<open>*AgentError\<close> or an error of a collaborator,
  of which only the text of \<open>Error()\<close> is observable.
\<close>

datatype error =
  AgentError (Code: ErrorCode) (Message: string) (Details: string) (Wrapped: "error option")
  | ForeignError string

definition Wrap :: "ErrorCode \<Rightarrow> string \<Rightarrow> error \<Rightarrow> string \<Rightarrow> error" where
  "Wrap code message err details = AgentError code message details (Some err)"

definition New :: "ErrorCode \<Rightarrow> string \<Rightarrow> string \<Rightarrow> error" where
  "New code message details = AgentError code message details None"

text \<open>
  \<open>AgentError.Error()\<close>. With a wrapped error the format string has five verbs for four
  operands: \<open>fmt\<close> prints the wrapped error's text at the fourth verb and the marker
  \<open>%!v(MISSING)\<close> at the fifth.
\<close>

fun Error :: "error \<Rightarrow> string" where
  "Error (ForeignError s) = s"
| "Error (AgentError code message details None) =
     ''['' @ code @ ''] '' @ message @ '': '' @ details"
| "Error (AgentError code message details (Some w)) =
     ''['' @ code @ ''] '' @ message @ '': '' @ details
       @ '' (details: '' @ Error w @ '', wrapped: %!v(MISSING))''"

subsection \<open>Configuration\<close>

record LLMProviderConfig =
  pc_URL :: string
  pc_Model :: string
  pc_APIKey :: string

record LLMConfig =
  llmc_Provider :: string
  llmc_LocalAI :: LLMProviderConfig
  llmc_DeepSeek :: LLMProviderConfig
  llmc_OpenAI :: LLMProviderConfig
  llmc_Timeout :: Duration

record ActionsConfig =
  Enabled :: bool

text \<open>Of \<open>types.Config\<close> the engine reads the \<open>LLM\<close> and the \<open>Actions\<close> section only.\<close>

record Config =
  cfg_LLM :: LLMConfig
  cfg_Actions :: ActionsConfig

subsection \<open>Issues, analysis results, suggestions, diagnoses\<close>

record IssueResource =
  res_Type :: string
  res_Namespace :: string
  res_Name :: string
  res_UID :: string
  res_VCluster :: string

record Issue =
  issue_ID :: string
  issue_Name :: string
  issue_Message :: string
  issue_Severity :: IssueSeverity
  issue_Timestamp :: Time
  issue_Resource :: "IssueResource option"
  issue_Context :: "string \<rightharpoonup> any"
  issue_Analyzers :: "string list"

record AnalysisResult =
  ar_ID :: string
  ar_Timestamp :: Time
  ar_Duration :: Duration
  ar_Status :: AnalysisStatus
  ar_Issues :: "Issue list"
  ar_AnalyzersRun :: "string list"
  ar_Error :: string

text \<open>
  \<open>Confidence\<close> and \<open>Score\<close> are \<open>float64\<close> in the source; the engine copies them and
  writes one constant, it never computes with them.
\<close>

record RemediationSuggestion =
  sug_IssueID :: string
  sug_Description :: string
  sug_ActionType :: ActionType
  sug_Command :: string
  sug_Payload :: "string \<rightharpoonup> any"
  sug_Confidence :: real
  sug_Source :: string

record LLMInteractionDetails =
  li_Provider :: string
  li_Model :: string
  li_Prompt :: string
  li_Response :: string

record KnowledgeBaseHit =
  hit_ID :: string
  hit_Source :: string
  hit_Content :: string
  hit_Score :: real

record DiagnosisResult =
  dr_AnalysisResultID :: string
  dr_Timestamp :: Time
  dr_Duration :: Duration
  dr_RootCause :: string
  dr_Suggestions :: "RemediationSuggestion list"
  dr_LLMInteraction :: "LLMInteractionDetails option"
  dr_KnowledgeBaseHits :: "KnowledgeBaseHit list"
  dr_Error :: string

section \<open>Capability interfaces (pkg/framework)\<close>

text \<open>
  The engine reaches its collaborators through Go interfaces. A method that only describes
  the implementation (\<open>Name\<close>, \<open>Type\<close>, \<open>RequiredDataSources\<close>) is a field; a method that
  works (\<open>Collect\<close>, \<open>Analyze\<close>, \<open>Retrieve\<close>, \<open>GenerateText\<close>, \<open>Plan\<close>, \<open>Execute\<close>) is a
  function on the state of the world \<open>'w\<close> outside the engine, which it may read and
  change. Where the engine uses the value of a \<open>(value, error)\<close> pair only when the error
  is \<open>nil\<close> the pair is a sum; \<open>GenerateText\<close> keeps the pair, since the engine records the
  text it returns together with an error.
\<close>

record 'w DataCollector =
  dc_Name :: string
  dc_Type :: DataSourceType
  dc_Collect :: "options \<Rightarrow> 'w \<Rightarrow> (error + any) \<times> 'w"

record 'w Analyzer =
  an_Name :: string
  an_RequiredDataSources :: "DataSourceType list"
  an_Analyze :: "'w \<Rightarrow> (error + Issue list) \<times> 'w"

record 'w KnowledgeBase =
  kb_Name :: string
  kb_Retrieve :: "string \<Rightarrow> options \<Rightarrow> 'w \<Rightarrow> (error + KnowledgeBaseHit list) \<times> 'w"

record 'w LLM =
  llm_Name :: string
  llm_GenerateText :: "string \<Rightarrow> 'w \<Rightarrow> (string \<times> error option) \<times> 'w"

record 'w Action =
  act_Name :: string
  act_Type :: ActionType
  act_Plan :: "DiagnosisResult \<Rightarrow> 'w \<Rightarrow> (error + bool \<times> RemediationSuggestion) \<times> 'w"
  act_Execute :: "RemediationSuggestion \<Rightarrow> 'w \<Rightarrow> (error + string) \<times> 'w"

subsection \<open>Calls into collaborators\<close>

text \<open>
  Every call the engine makes into a collaborator is recorded, in order, next to the world
  it has changed: which implementation was called, and for the reasoning backend the
  prompt it was sent.
\<close>

datatype call =
  CollectCall string | AnalyzeCall string | RetrieveCall string string
  | GenerateTextCall string string | PlanCall string | ExecuteCall string

record 'w state =
  world :: 'w
  calls :: "call list"

definition call_Collect ::
  "'w DataCollector \<Rightarrow> options \<Rightarrow> 'w state \<Rightarrow> (error + any) \<times> 'w state" where
  "call_Collect collector opts \<sigma> =
     (case dc_Collect collector opts (world \<sigma>) of
        (r, w') \<Rightarrow> (r, \<lparr>world = w', calls = calls \<sigma> @ [CollectCall (dc_Name collector)]\<rparr>))"

definition call_Analyze :: "'w Analyzer \<Rightarrow> 'w state \<Rightarrow> (error + Issue list) \<times> 'w state" where
  "call_Analyze analyzer \<sigma> =
     (case an_Analyze analyzer (world \<sigma>) of
        (r, w') \<Rightarrow> (r, \<lparr>world = w', calls = calls \<sigma> @ [AnalyzeCall (an_Name analyzer)]\<rparr>))"

definition call_Retrieve ::
  "'w KnowledgeBase \<Rightarrow> string \<Rightarrow> options \<Rightarrow> 'w state
    \<Rightarrow> (error + KnowledgeBaseHit list) \<times> 'w state" where
  "call_Retrieve kb query opts \<sigma> =
     (case kb_Retrieve kb query opts (world \<sigma>) of
        (r, w') \<Rightarrow> (r, \<lparr>world = w', calls = calls \<sigma> @ [RetrieveCall (kb_Name kb) query]\<rparr>))"

definition call_GenerateText ::
  "'w LLM \<Rightarrow> string \<Rightarrow> 'w state \<Rightarrow> (string \<times> error option) \<times> 'w state" where
  "call_GenerateText provider prompt \<sigma> =
     (case llm_GenerateText provider prompt (world \<sigma>) of
        (r, w') \<Rightarrow>
          (r, \<lparr>world = w', calls = calls \<sigma> @ [GenerateTextCall (llm_Name provider) prompt]\<rparr>))"

definition call_Plan ::
  "'w Action \<Rightarrow> DiagnosisResult \<Rightarrow> 'w state
    \<Rightarrow> (error + bool \<times> RemediationSuggestion) \<times> 'w state" where
  "call_Plan act diagnosis \<sigma> =
     (case act_Plan act diagnosis (world \<sigma>) of
        (r, w') \<Rightarrow> (r, \<lparr>world = w', calls = calls \<sigma> @ [PlanCall (act_Name act)]\<rparr>))"

definition call_Execute ::
  "'w Action \<Rightarrow> RemediationSuggestion \<Rightarrow> 'w state \<Rightarrow> (error + string) \<times> 'w state" where
  "call_Execute act suggestion \<sigma> =
     (case act_Execute act suggestion (world \<sigma>) of
        (r, w') \<Rightarrow> (r, \<lparr>world = w', calls = calls \<sigma> @ [ExecuteCall (act_Name act)]\<rparr>))"

section \<open>The engine (package engine)\<close>

record 'w SREAgentEngine =
  config :: Config
  dataCollectors :: "'w DataCollector list"
  analyzers :: "'w Analyzer list"
  knowledgeBase :: "'w KnowledgeBase option"
  llmProvider :: "'w LLM"
  actions :: "'w Action list"

subsection \<open>SuggestActions\<close>

text \<open>The loop over \<open>e.actions\<close>, which collects \<open>allSuggestions\<close>.\<close>

fun plan_loop ::
  "'w SREAgentEngine \<Rightarrow> 'w Action list \<Rightarrow> DiagnosisResult \<Rightarrow> RemediationSuggestion list
    \<Rightarrow> 'w state \<Rightarrow> RemediationSuggestion list \<times> 'w state" where
  "plan_loop e [] diagnosisResult allSuggestions \<sigma> = (allSuggestions, \<sigma>)"
| "plan_loop e (act # rest) diagnosisResult allSuggestions \<sigma> =
     (if act_Type act = ActionTypeAutomated \<and> \<not> Enabled (cfg_Actions (config e))
      then plan_loop e rest diagnosisResult allSuggestions \<sigma>
      else (case call_Plan act diagnosisResult \<sigma> of
              (Inl err, \<sigma>') \<Rightarrow> plan_loop e rest diagnosisResult allSuggestions \<sigma>'
            | (Inr (isRelevant, suggestion), \<sigma>') \<Rightarrow>
                if isRelevant
                then plan_loop e rest diagnosisResult (allSuggestions @ [suggestion]) \<sigma>'
                else plan_loop e rest diagnosisResult allSuggestions \<sigma>'))"

text \<open>
  \<open>suggestionMap\<close> has type \<open>map[string]struct{}\<close>: a set of descriptions. The first loop
  enters the description of every suggestion of the diagnosis.
\<close>

fun seed_loop :: "RemediationSuggestion list \<Rightarrow> string set \<Rightarrow> string set" where
  "seed_loop [] suggestionMap = suggestionMap"
| "seed_loop (s # rest) suggestionMap = seed_loop rest (insert (sug_Description s) suggestionMap)"

text \<open>The second loop appends the planned suggestions whose description is not yet entered.\<close>

fun merge_loop ::
  "RemediationSuggestion list \<Rightarrow> RemediationSuggestion list \<Rightarrow> string set
    \<Rightarrow> RemediationSuggestion list" where
  "merge_loop [] combinedSuggestions suggestionMap = combinedSuggestions"
| "merge_loop (s # rest) combinedSuggestions suggestionMap =
     (if sug_Description s \<notin> suggestionMap
      then merge_loop rest (combinedSuggestions @ [s]) (insert (sug_Description s) suggestionMap)
      else merge_loop rest combinedSuggestions suggestionMap)"

definition SuggestActions ::
  "'w SREAgentEngine \<Rightarrow> DiagnosisResult \<Rightarrow> 'w state
    \<Rightarrow> (RemediationSuggestion list \<times> error option) \<times> 'w state" where
  "SuggestActions e diagnosisResult \<sigma> =
     (case plan_loop e (actions e) diagnosisResult [] \<sigma> of
        (allSuggestions, \<sigma>') \<Rightarrow>
          (let combinedSuggestions = dr_Suggestions diagnosisResult;
               suggestionMap = seed_loop combinedSuggestions {}
           in ((merge_loop allSuggestions combinedSuggestions suggestionMap, None), \<sigma>')))"

subsection \<open>The capability registries\<close>

text \<open>
  Each registry is a package-level map from names to implementations; the five of them are
  the process-wide mutable state. An explicit \<open>panic\<close> of the source is the outcome
  \<open>Panic\<close>, which carries no state: nothing runs after it.
\<close>

record 'w registries =
  globalDataCollectorRegistry :: "string \<rightharpoonup> 'w DataCollector"
  globalAnalyzerRegistry :: "string \<rightharpoonup> 'w Analyzer"
  globalKnowledgeBaseRegistry :: "string \<rightharpoonup> 'w KnowledgeBase"
  globalLLMRegistry :: "string \<rightharpoonup> 'w LLM"
  globalActionRegistry :: "string \<rightharpoonup> 'w Action"

datatype 'a outcome = Panic string | Return 'a

text \<open>Statements in sequence: the second runs only if the first returns.\<close>

fun and_then :: "'a outcome \<Rightarrow> ('a \<Rightarrow> 'b outcome) \<Rightarrow> 'b outcome" where
  "and_then (Panic msg) f = Panic msg"
| "and_then (Return x) f = f x"

abbreviation quote :: string where
  "quote \<equiv> [CHR 0x27]"

abbreviation newline :: string where
  "newline \<equiv> [CHR 0x0A]"

definition RegisterDataCollector ::
  "'w DataCollector \<Rightarrow> 'w registries \<Rightarrow> 'w registries outcome" where
  "RegisterDataCollector collector g =
     (let name = dc_Name collector in
      if globalDataCollectorRegistry g name \<noteq> None
      then Panic (''data collector with name '' @ quote @ name @ quote @ '' already registered'')
      else Return (g\<lparr>globalDataCollectorRegistry :=
                        (globalDataCollectorRegistry g)(name \<mapsto> collector)\<rparr>))"

definition RegisterAnalyzer :: "'w Analyzer \<Rightarrow> 'w registries \<Rightarrow> 'w registries outcome" where
  "RegisterAnalyzer analyzer g =
     (let name = an_Name analyzer in
      if globalAnalyzerRegistry g name \<noteq> None
      then Panic (''analyzer with name '' @ quote @ name @ quote @ '' already registered'')
      else Return (g\<lparr>globalAnalyzerRegistry := (globalAnalyzerRegistry g)(name \<mapsto> analyzer)\<rparr>))"

definition RegisterKnowledgeBase ::
  "'w KnowledgeBase \<Rightarrow> 'w registries \<Rightarrow> 'w registries outcome" where
  "RegisterKnowledgeBase kb g =
     (let name = kb_Name kb in
      if globalKnowledgeBaseRegistry g name \<noteq> None
      then Panic (''knowledge base provider with name '' @ quote @ name @ quote
                    @ '' already registered'')
      else Return (g\<lparr>globalKnowledgeBaseRegistry :=
                        (globalKnowledgeBaseRegistry g)(name \<mapsto> kb)\<rparr>))"

definition RegisterLLMProvider :: "'w LLM \<Rightarrow> 'w registries \<Rightarrow> 'w registries outcome" where
  "RegisterLLMProvider provider g =
     (let name = llm_Name provider in
      if globalLLMRegistry g name \<noteq> None
      then Panic (''LLM provider with name '' @ quote @ name @ quote @ '' already registered'')
      else Return (g\<lparr>globalLLMRegistry := (globalLLMRegistry g)(name \<mapsto> provider)\<rparr>))"

definition RegisterAction :: "'w Action \<Rightarrow> 'w registries \<Rightarrow> 'w registries outcome" where
  "RegisterAction action g =
     (let name = act_Name action in
      if globalActionRegistry g name \<noteq> None
      then Panic (''action with name '' @ quote @ name @ quote @ '' already registered'')
      else Return (g\<lparr>globalActionRegistry := (globalActionRegistry g)(name \<mapsto> action)\<rparr>))"

definition GetAction :: "'w registries \<Rightarrow> string \<Rightarrow> 'w Action option" where
  "GetAction g name = globalActionRegistry g name"

definition GetAnalyzer :: "'w registries \<Rightarrow> string \<Rightarrow> 'w Analyzer option" where
  "GetAnalyzer g name = globalAnalyzerRegistry g name"

text \<open>
  The five registries are five copies of one pattern. For stating what holds of every one
  of them and of every pair of them: an implementation of any of the five kinds, the
  registry it belongs to, its name, its registration by the function of its kind, and the
  entry a registry holds under a name.
\<close>

datatype registry = DataCollectors | Analyzers | KnowledgeBases | LLMProviders | Actions

datatype 'w implementation =
  ADataCollector "'w DataCollector"
  | AnAnalyzer "'w Analyzer"
  | AKnowledgeBase "'w KnowledgeBase"
  | AnLLM "'w LLM"
  | AnAction "'w Action"

fun registry_of :: "'w implementation \<Rightarrow> registry" where
  "registry_of (ADataCollector c) = DataCollectors"
| "registry_of (AnAnalyzer a) = Analyzers"
| "registry_of (AKnowledgeBase k) = KnowledgeBases"
| "registry_of (AnLLM l) = LLMProviders"
| "registry_of (AnAction b) = Actions"

fun name_of :: "'w implementation \<Rightarrow> string" where
  "name_of (ADataCollector c) = dc_Name c"
| "name_of (AnAnalyzer a) = an_Name a"
| "name_of (AKnowledgeBase k) = kb_Name k"
| "name_of (AnLLM l) = llm_Name l"
| "name_of (AnAction b) = act_Name b"

fun register :: "'w implementation \<Rightarrow> 'w registries \<Rightarrow> 'w registries outcome" where
  "register (ADataCollector c) g = RegisterDataCollector c g"
| "register (AnAnalyzer a) g = RegisterAnalyzer a g"
| "register (AKnowledgeBase k) g = RegisterKnowledgeBase k g"
| "register (AnLLM l) g = RegisterLLMProvider l g"
| "register (AnAction b) g = RegisterAction b g"

fun registered :: "'w registries \<Rightarrow> registry \<Rightarrow> string \<Rightarrow> 'w implementation option" where
  "registered g DataCollectors name = map_option ADataCollector (globalDataCollectorRegistry g name)"
| "registered g Analyzers name = map_option AnAnalyzer (globalAnalyzerRegistry g name)"
| "registered g KnowledgeBases name = map_option AKnowledgeBase (globalKnowledgeBaseRegistry g name)"
| "registered g LLMProviders name = map_option AnLLM (globalLLMRegistry g name)"
| "registered g Actions name = map_option AnAction (globalActionRegistry g name)"

subsection \<open>ExecuteAction\<close>

text \<open>
  \<open>ExecuteAction\<close> looks the action up in the global action registry, not in \<open>e.actions\<close>.
  The result is the pair \<open>(string, error)\<close> of the source.
\<close>

definition ExecuteAction ::
  "'w SREAgentEngine \<Rightarrow> 'w registries \<Rightarrow> RemediationSuggestion \<Rightarrow> 'w state
    \<Rightarrow> (string \<times> error option) \<times> 'w state" where
  "ExecuteAction e g suggestion \<sigma> =
     (if sug_ActionType suggestion \<noteq> ActionTypeAutomated
      then (('''', Some (New ErrorCodeInvalidInput ''action type is not automated''
                (''suggestion ID '' @ sug_IssueID suggestion @ '' has type ''
                   @ ActionType_String (sug_ActionType suggestion)))), \<sigma>)
      else if \<not> Enabled (cfg_Actions (config e))
      then (('''', Some (New ErrorCodeActionExecutionFailed ''automated actions disabled'' '''')),
            \<sigma>)
      else
        (let actionName = sug_Source suggestion in
         case GetAction g actionName of
           None \<Rightarrow>
             (('''', Some (New ErrorCodeNotFound ''action implementation not found''
                 (''action '' @ quote @ actionName @ quote @ '' not registered for execution''))),
              \<sigma>)
         | Some act \<Rightarrow>
             if act_Type act \<noteq> ActionTypeAutomated
             then (('''', Some (New ErrorCodeInvalidInput ''registered action is not automated''
                      (''action '' @ quote @ actionName @ quote
                         @ '' registered but is not automated type''))), \<sigma>)
             else (case call_Execute act suggestion \<sigma> of
                     (Inl err, \<sigma>') \<Rightarrow>
                       (('''', Some (Wrap ErrorCodeActionExecutionFailed
                           ''failed to execute action'' err
                           (''action '' @ quote @ actionName @ quote @ '' failed''))), \<sigma>')
                   | (Inr result, \<sigma>') \<Rightarrow> ((result, None), \<sigma>'))))"

subsection \<open>RunAnalysis\<close>

text \<open>
  What a call reads from outside the repository's code: the identifier of \<open>uuid.New()\<close>,
  the clock (\<open>time.Now()\<close> at the start, \<open>time.Since(start)\<close> at the return), and the text
  \<open>fmt\<close> produces for the verbs \<open>%v\<close> of an issue list and \<open>%.2f\<close> of a score. Two
  identifiers \<open>RunDiagnosis\<close> uses are declared nowhere in the repository and are taken
  as given: the method \<open>GetEnabledLLMProvider\<close> of the reasoning configuration, and the
  variable \<open>diagnosisErr\<close> returned on the failure path.
\<close>

record env =
  uuid_New :: string
  time_Now :: Time
  time_Since :: Duration
  Sprint_Issues :: "Issue list \<Rightarrow> string"
  Sprintf_2f :: "real \<Rightarrow> string"
  GetEnabledLLMProvider :: "LLMConfig \<Rightarrow> LLMProviderConfig"
  diagnosisErr :: "error option"

text \<open>The collection loop: a failed collector leaves no entry in \<open>collectedData\<close>.\<close>

fun collect_loop ::
  "'w DataCollector list \<Rightarrow> options \<Rightarrow> (DataSourceType \<rightharpoonup> any) \<Rightarrow> 'w state
    \<Rightarrow> (DataSourceType \<rightharpoonup> any) \<times> 'w state" where
  "collect_loop [] opts collectedData \<sigma> = (collectedData, \<sigma>)"
| "collect_loop (collector # rest) opts collectedData \<sigma> =
     (case call_Collect collector opts \<sigma> of
        (Inl err, \<sigma>') \<Rightarrow> collect_loop rest opts collectedData \<sigma>'
      | (Inr data, \<sigma>') \<Rightarrow>
          collect_loop rest opts (collectedData(dc_Type collector \<mapsto> data)) \<sigma>')"

text \<open>The inner loop over \<open>analyzer.RequiredDataSources()\<close>, which sets \<open>missingData\<close>.\<close>

fun missingData :: "DataSourceType list \<Rightarrow> (DataSourceType \<rightharpoonup> any) \<Rightarrow> bool" where
  "missingData [] collectedData = False"
| "missingData (requiredType # rest) collectedData =
     (if collectedData requiredType = None then True else missingData rest collectedData)"

text \<open>The loop over \<open>e.analyzers\<close>, on \<open>result\<close> (for its audit list) and \<open>allIssues\<close>.\<close>

fun analyze_loop ::
  "'w Analyzer list \<Rightarrow> (DataSourceType \<rightharpoonup> any) \<Rightarrow> AnalysisResult \<Rightarrow> Issue list \<Rightarrow> 'w state
    \<Rightarrow> AnalysisResult \<times> Issue list \<times> 'w state" where
  "analyze_loop [] collectedData result allIssues \<sigma> = (result, allIssues, \<sigma>)"
| "analyze_loop (analyzer # rest) collectedData result allIssues \<sigma> =
     (if missingData (an_RequiredDataSources analyzer) collectedData
      then analyze_loop rest collectedData
             (result\<lparr>ar_AnalyzersRun := ar_AnalyzersRun result @ [an_Name analyzer @ '' (Skipped)'']\<rparr>)
             allIssues \<sigma>
      else (case call_Analyze analyzer \<sigma> of
              (Inl err, \<sigma>') \<Rightarrow>
                analyze_loop rest collectedData
                  (result\<lparr>ar_AnalyzersRun :=
                            ar_AnalyzersRun result @ [an_Name analyzer @ '' (Failed)'']\<rparr>)
                  allIssues \<sigma>'
            | (Inr issues, \<sigma>') \<Rightarrow>
                analyze_loop rest collectedData
                  (result\<lparr>ar_AnalyzersRun :=
                            ar_AnalyzersRun result @ [an_Name analyzer @ '' (Completed)'']\<rparr>)
                  (allIssues @ issues) \<sigma>'))"

text \<open>The result \<open>RunAnalysis\<close> starts from.\<close>

definition new_result :: "env \<Rightarrow> AnalysisResult" where
  "new_result env =
     \<lparr>ar_ID = uuid_New env, ar_Timestamp = time_Now env, ar_Duration = 0,
      ar_Status = AnalysisStatusRunning, ar_Issues = [], ar_AnalyzersRun = [], ar_Error = ''''\<rparr>"

text \<open>The result is a pointer to the analysis result and an error; \<open>None\<close> is the nil pointer.\<close>

definition RunAnalysis ::
  "'w SREAgentEngine \<Rightarrow> env \<Rightarrow> options \<Rightarrow> 'w state
    \<Rightarrow> (AnalysisResult option \<times> error option) \<times> 'w state" where
  "RunAnalysis e env opts \<sigma> =
     (let result = new_result env
      in case collect_loop (dataCollectors e) opts Map.empty \<sigma> of
           (collectedData, \<sigma>1) \<Rightarrow>
             (case analyze_loop (analyzers e) collectedData result [] \<sigma>1 of
                (result', allIssues, \<sigma>2) \<Rightarrow>
                  ((Some (result'\<lparr>ar_Issues := allIssues, ar_Duration := time_Since env,
                                  ar_Status := AnalysisStatusCompleted\<rparr>), None), \<sigma>2)))"

text \<open>
  Two readings of a pass, for stating properties of it: the payloads the collection loop
  has stored (their keys are the source types collected without error), and the state in
  which the analyzer at index \<open>i\<close> is reached.
\<close>

definition collected :: "'w SREAgentEngine \<Rightarrow> options \<Rightarrow> 'w state \<Rightarrow> (DataSourceType \<rightharpoonup> any)" where
  "collected e opts \<sigma> = fst (collect_loop (dataCollectors e) opts Map.empty \<sigma>)"

definition state_before_analyzer ::
  "'w SREAgentEngine \<Rightarrow> env \<Rightarrow> options \<Rightarrow> 'w state \<Rightarrow> nat \<Rightarrow> 'w state" where
  "state_before_analyzer e env opts \<sigma> i =
     (case collect_loop (dataCollectors e) opts Map.empty \<sigma> of
        (collectedData, \<sigma>1) \<Rightarrow>
          snd (snd (analyze_loop (take i (analyzers e)) collectedData (new_result env) [] \<sigma>1)))"

subsection \<open>RunDiagnosis\<close>

text \<open>\<open>StringBuilder\<close> holds one string; \<open>WriteString\<close> appends to it.\<close>

definition WriteString :: "string \<Rightarrow> string \<Rightarrow> string" where
  "WriteString sb str = sb @ str"

text \<open>The verb \<open>%d\<close> of a number that is never negative (the loop index plus one).\<close>

function Sprintf_d :: "nat \<Rightarrow> string" where
  "Sprintf_d n =
     (if n < 10 then [char_of (48 + n)] else Sprintf_d (n div 10) @ [char_of (48 + n mod 10)])"
  by pat_completeness auto
termination
  by (relation "measure id") auto

declare Sprintf_d.simps [simp del]

text \<open>The loop that writes one block per issue; \<open>i\<close> is the index of the first issue left.\<close>

fun issue_loop :: "Issue list \<Rightarrow> nat \<Rightarrow> string \<Rightarrow> string" where
  "issue_loop [] i promptBuilder = promptBuilder"
| "issue_loop (issue # rest) i promptBuilder =
     (let sb1 = WriteString promptBuilder (''Issue '' @ Sprintf_d (i + 1) @ '':'' @ newline);
          sb2 = WriteString sb1 (''  Name: '' @ issue_Name issue @ newline);
          sb3 = WriteString sb2
                  (''  Severity: '' @ IssueSeverity_String (issue_Severity issue) @ newline);
          sb4 = WriteString sb3 (''  Message: '' @ issue_Message issue @ newline);
          sb5 = (case issue_Resource issue of
                   None \<Rightarrow> sb4
                 | Some resource \<Rightarrow>
                     WriteString sb4
                       (''  Resource: Type='' @ res_Type resource @ '', Name='' @ res_Name resource
                          @ '', Namespace='' @ res_Namespace resource
                          @ '', VCluster='' @ res_VCluster resource @ newline))
      in issue_loop rest (i + 1) (WriteString sb5 newline))"

text \<open>The loop that writes one block per knowledge base hit.\<close>

fun hit_loop :: "env \<Rightarrow> KnowledgeBaseHit list \<Rightarrow> string \<Rightarrow> string" where
  "hit_loop env [] promptBuilder = promptBuilder"
| "hit_loop env (hit # rest) promptBuilder =
     (let sb1 = WriteString promptBuilder
                  (''Source: '' @ hit_Source hit @ '' (Score: '' @ Sprintf_2f env (hit_Score hit)
                     @ '')'' @ newline)
      in hit_loop env rest (WriteString sb1 (hit_Content hit @ newline @ newline)))"

text \<open>
  Knowledge retrieval, on the diagnosis and the prompt builder: skipped without a knowledge
  base; a failed retrieval changes neither.
\<close>

definition retrieve_knowledge ::
  "'w SREAgentEngine \<Rightarrow> env \<Rightarrow> string \<Rightarrow> DiagnosisResult \<Rightarrow> string \<Rightarrow> 'w state
    \<Rightarrow> DiagnosisResult \<times> string \<times> 'w state" where
  "retrieve_knowledge e env kbQuery diagnosis promptBuilder \<sigma> =
     (case knowledgeBase e of
        None \<Rightarrow> (diagnosis, promptBuilder, \<sigma>)
      | Some kb \<Rightarrow>
          (case call_Retrieve kb kbQuery [''k'' \<mapsto> AnyInt 5] \<sigma> of
             (Inl kbErr, \<sigma>') \<Rightarrow> (diagnosis, promptBuilder, \<sigma>')
           | (Inr kbHits, \<sigma>') \<Rightarrow>
               (diagnosis\<lparr>dr_KnowledgeBaseHits := kbHits\<rparr>,
                (if length kbHits > 0
                 then hit_loop env kbHits
                        (WriteString promptBuilder
                           (''Relevant knowledge from SRE Knowledge Base:'' @ newline @ newline))
                 else promptBuilder),
                \<sigma>')))"

text \<open>The placeholder of the source: it parses nothing and never fails.\<close>

definition parseLLMDiagnosisResponse :: "string \<Rightarrow> string \<times> string list \<times> error option" where
  "parseLLMDiagnosisResponse response =
     (let rootCause = ''Parsing logic not yet implemented. Raw LLM response:'' @ newline @ response;
          suggestions = [''Parsing failed, cannot extract suggestions from raw response.'']
      in (rootCause, suggestions, None))"

text \<open>The loop that turns the parsed suggestion texts into suggestions of the diagnosis.\<close>

fun suggestion_loop :: "string list \<Rightarrow> DiagnosisResult \<Rightarrow> DiagnosisResult" where
  "suggestion_loop [] diagnosis = diagnosis"
| "suggestion_loop (s # rest) diagnosis =
     (let suggestion = \<lparr>sug_IssueID = ''N/A'', sug_Description = s,
                         sug_ActionType = ActionTypeSuggestion, sug_Command = '''',
                         sug_Payload = Map.empty, sug_Confidence = 0.8, sug_Source = ''LLM''\<rparr>
      in suggestion_loop rest
           (diagnosis\<lparr>dr_Suggestions := dr_Suggestions diagnosis @ [suggestion]\<rparr>))"

text \<open>The prompt \<open>RunDiagnosis\<close> has assembled when it reaches knowledge retrieval.\<close>

definition issues_prompt :: "AnalysisResult \<Rightarrow> string" where
  "issues_prompt analysisResult =
     (let sb1 = WriteString []
                  (''You are an AI SRE agent assisting with troubleshooting Kubernetes issues in a multi-tenant vcluster environment.''
                     @ newline);
          sb2 = WriteString sb1
                  (''Analyze the following issues detected in the cluster:'' @ newline @ newline)
      in issue_loop (ar_Issues analysisResult) 0 sb2)"

text \<open>The fixed instructions written after the knowledge blocks.\<close>

definition instructions :: "string \<Rightarrow> string" where
  "instructions promptBuilder =
     (let sb1 = WriteString promptBuilder
                  (''Based on the issues and relevant knowledge, provide:'' @ newline);
          sb2 = WriteString sb1 (''1. A concise root cause analysis.'' @ newline);
          sb3 = WriteString sb2 (''2. Suggested remediation steps.'' @ newline)
      in WriteString sb3
           (''Please provide the root cause analysis as a paragraph and the suggestions as a numbered list.''
              @ newline))"

text \<open>The diagnosis \<open>RunDiagnosis\<close> starts from.\<close>

definition new_diagnosis :: "env \<Rightarrow> AnalysisResult \<Rightarrow> DiagnosisResult" where
  "new_diagnosis env analysisResult =
     \<lparr>dr_AnalysisResultID = ar_ID analysisResult, dr_Timestamp = time_Now env,
      dr_Duration = 0, dr_RootCause = '''', dr_Suggestions = [],
      dr_LLMInteraction = None, dr_KnowledgeBaseHits = [], dr_Error = ''''\<rparr>"

text \<open>
  From the first write to the prompt builder to \<open>finalPrompt\<close>: the diagnosis with its
  knowledge base hits, the final prompt, and the state in which the reasoning backend is
  called.
\<close>

definition diagnosis_prompt ::
  "'w SREAgentEngine \<Rightarrow> env \<Rightarrow> AnalysisResult \<Rightarrow> DiagnosisResult \<Rightarrow> 'w state
    \<Rightarrow> DiagnosisResult \<times> string \<times> 'w state" where
  "diagnosis_prompt e env analysisResult diagnosis \<sigma> =
     (let kbQuery = ''Diagnose Kubernetes issues: '' @ Sprint_Issues env (ar_Issues analysisResult)
      in case retrieve_knowledge e env kbQuery diagnosis (issues_prompt analysisResult) \<sigma> of
           (diagnosis1, promptBuilder, \<sigma>1) \<Rightarrow> (diagnosis1, instructions promptBuilder, \<sigma>1))"

text \<open>
  The result is a pointer to the diagnosis and an error; \<open>None\<close> in the first component
  is the nil pointer. The argument is the analysis result the pointer of the source points to.
\<close>

definition RunDiagnosis ::
  "'w SREAgentEngine \<Rightarrow> env \<Rightarrow> AnalysisResult \<Rightarrow> 'w state
    \<Rightarrow> (DiagnosisResult option \<times> error option) \<times> 'w state" where
  "RunDiagnosis e env analysisResult \<sigma> =
     (let diagnosis = new_diagnosis env analysisResult
      in if length (ar_Issues analysisResult) = 0
         then ((Some (diagnosis\<lparr>dr_RootCause := ''No issues detected.'',
                                dr_Duration := time_Since env\<rparr>), None), \<sigma>)
         else
           (case diagnosis_prompt e env analysisResult diagnosis \<sigma> of
              (diagnosis1, finalPrompt, \<sigma>1) \<Rightarrow>
                (case call_GenerateText (llmProvider e) finalPrompt \<sigma>1 of
                   ((llmResponse, llmErr), \<sigma>2) \<Rightarrow>
                     (let diagnosis2 = diagnosis1\<lparr>dr_LLMInteraction := Some
                            \<lparr>li_Provider = llm_Name (llmProvider e),
                             li_Model = pc_Model (GetEnabledLLMProvider env (cfg_LLM (config e))),
                             li_Prompt = finalPrompt, li_Response = llmResponse\<rparr>\<rparr>
                      in case llmErr of
                           Some err \<Rightarrow>
                             ((Some (diagnosis2
                                 \<lparr>dr_RootCause := ''Failed to perform diagnosis due to LLM error.'',
                                  dr_Error := Error (Wrap ErrorCodeLLMProviderError
                                                ''LLM diagnosis failed'' err ''''),
                                  dr_Duration := time_Since env\<rparr>),
                               diagnosisErr env), \<sigma>2)
                         | None \<Rightarrow>
                             (case parseLLMDiagnosisResponse llmResponse of
                                (parsedRootCause, parsedSuggestions, parseErr) \<Rightarrow>
                                  (let diagnosis3 =
                                     (case parseErr of
                                        Some perr \<Rightarrow>
                                          diagnosis2
                                            \<lparr>dr_RootCause :=
                                               ''LLM response received but parsing failed: ''
                                                 @ llmResponse,
                                             dr_Error := Error (Wrap ErrorCodeUnknown
                                               ''Failed to parse LLM response'' perr '''')\<rparr>
                                      | None \<Rightarrow>
                                          suggestion_loop parsedSuggestions
                                            (diagnosis2\<lparr>dr_RootCause := parsedRootCause\<rparr>))
                                   in ((Some (diagnosis3\<lparr>dr_Duration := time_Since env\<rparr>),
                                        None), \<sigma>2)))))))"

section \<open>A concrete installation\<close>

text \<open>
  Collaborators for running the engine on concrete inputs. Their world is a counter of the
  calls they have served. The finding, the analyzer names and the backend's answer are
  those of the end-to-end scenario; \<open>restart-pod\<close> has the name and the classification of
  the repository's \<open>RestartPodAction\<close>.
\<close>

definition ex_finding :: Issue where
  "ex_finding =
     \<lparr>issue_ID = ''issue-1'', issue_Name = ''PodCrashLoopBackOff'',
      issue_Message = ''Pod is in CrashLoopBackOff'', issue_Severity = IssueSeverityError,
      issue_Timestamp = 0,
      issue_Resource = Some \<lparr>res_Type = ''Pod'', res_Namespace = ''default'',
                              res_Name = ''my-app-xyz'', res_UID = '''',
                              res_VCluster = ''vcluster-a''\<rparr>,
      issue_Context = Map.empty, issue_Analyzers = [''kubernetes-pod-analyzer'']\<rparr>"

definition ex_k8s_collector :: "nat DataCollector" where
  "ex_k8s_collector =
     \<lparr>dc_Name = ''k8s-collector'', dc_Type = DataSourceTypeKubernetesAPI,
      dc_Collect = (\<lambda>opts w. (Inr AnyNil, Suc w))\<rparr>"

definition ex_business_collector :: "nat DataCollector" where
  "ex_business_collector =
     \<lparr>dc_Name = ''business-collector'', dc_Type = DataSourceTypeBusinessSDK,
      dc_Collect = (\<lambda>opts w. (Inl (ForeignError ''connection refused''), Suc w))\<rparr>"

definition ex_pod_analyzer :: "nat Analyzer" where
  "ex_pod_analyzer =
     \<lparr>an_Name = ''kubernetes-pod-analyzer'',
      an_RequiredDataSources = [DataSourceTypeKubernetesAPI],
      an_Analyze = (\<lambda>w. (Inr [ex_finding], Suc w))\<rparr>"

definition ex_log_analyzer :: "nat Analyzer" where
  "ex_log_analyzer =
     \<lparr>an_Name = ''business-log-analyzer'',
      an_RequiredDataSources = [DataSourceTypeKubernetesAPI, DataSourceTypeBusinessSDK],
      an_Analyze = (\<lambda>w. (Inr [ex_finding\<lparr>issue_ID := ''issue-2''\<rparr>], Suc w))\<rparr>"

definition ex_broken_analyzer :: "nat Analyzer" where
  "ex_broken_analyzer =
     \<lparr>an_Name = ''broken-analyzer'', an_RequiredDataSources = [],
      an_Analyze = (\<lambda>w. (Inl (ForeignError ''analysis failed''), Suc w))\<rparr>"

definition ex_response :: string where
  "ex_response = ''Root Cause: ...'' @ newline @ ''Suggestions:'' @ newline @ ''1. Restart the pod''"

definition ex_mock_llm :: "nat LLM" where
  "ex_mock_llm =
     \<lparr>llm_Name = ''mock'', llm_GenerateText = (\<lambda>prompt w. ((ex_response, None), Suc w))\<rparr>"

definition ex_failing_llm :: "nat LLM" where
  "ex_failing_llm =
     \<lparr>llm_Name = ''unreachable'',
      llm_GenerateText = (\<lambda>prompt w. (('''', Some (ForeignError ''deadline exceeded'')), Suc w))\<rparr>"

definition ex_suggestion :: "string \<Rightarrow> ActionType \<Rightarrow> string \<Rightarrow> RemediationSuggestion" where
  "ex_suggestion description actionType source =
     \<lparr>sug_IssueID = ''analysis-1'', sug_Description = description, sug_ActionType = actionType,
      sug_Command = '''', sug_Payload = Map.empty, sug_Confidence = 0.7, sug_Source = source\<rparr>"

definition ex_restart_hint :: "nat Action" where
  "ex_restart_hint =
     \<lparr>act_Name = ''restart-hint'', act_Type = ActionTypeSuggestion,
      act_Plan = (\<lambda>d w. (Inr (True, ex_suggestion ''Restart pod X'' ActionTypeSuggestion
                                      ''restart-hint''), Suc w)),
      act_Execute = (\<lambda>s w. (Inl (ForeignError ''not executable''), Suc w))\<rparr>"

definition ex_scale_hint :: "nat Action" where
  "ex_scale_hint =
     \<lparr>act_Name = ''scale-hint'', act_Type = ActionTypeSuggestion,
      act_Plan = (\<lambda>d w. (Inr (True, ex_suggestion ''Scale deployment Y'' ActionTypeSuggestion
                                      ''scale-hint''), Suc w)),
      act_Execute = (\<lambda>s w. (Inl (ForeignError ''not executable''), Suc w))\<rparr>"

definition ex_restart_pod :: "nat Action" where
  "ex_restart_pod =
     \<lparr>act_Name = ''restart-pod'', act_Type = ActionTypeAutomated,
      act_Plan = (\<lambda>d w. (Inr (True, ex_suggestion ''Restart Pod by deleting it''
                                      ActionTypeAutomated ''restart-pod''), Suc w)),
      act_Execute = (\<lambda>s w. (Inr ''Successfully requested deletion of Pod'', Suc w))\<rparr>"

definition ex_provider_config :: LLMProviderConfig where
  "ex_provider_config = \<lparr>pc_URL = ''http://localhost:8080'', pc_Model = ''local'', pc_APIKey = ''''\<rparr>"

definition ex_config :: "bool \<Rightarrow> Config" where
  "ex_config enabled =
     \<lparr>cfg_LLM = \<lparr>llmc_Provider = ''localai'', llmc_LocalAI = ex_provider_config,
                  llmc_DeepSeek = ex_provider_config, llmc_OpenAI = ex_provider_config,
                  llmc_Timeout = 60000000000\<rparr>,
      cfg_Actions = \<lparr>Enabled = enabled\<rparr>\<rparr>"

definition ex_env :: env where
  "ex_env =
     \<lparr>uuid_New = ''run-1'', time_Now = 0, time_Since = 1,
      Sprint_Issues = (\<lambda>issues. ''[...]''), Sprintf_2f = (\<lambda>score. ''0.00''),
      GetEnabledLLMProvider = llmc_LocalAI, diagnosisErr = None\<rparr>"

definition ex_engine :: "bool \<Rightarrow> nat LLM \<Rightarrow> nat SREAgentEngine" where
  "ex_engine enabled provider =
     \<lparr>config = ex_config enabled,
      dataCollectors = [ex_k8s_collector, ex_business_collector],
      analyzers = [ex_pod_analyzer, ex_log_analyzer, ex_broken_analyzer],
      knowledgeBase = None, llmProvider = provider,
      actions = [ex_restart_hint, ex_scale_hint, ex_restart_pod]\<rparr>"

definition ex_registries :: "nat registries" where
  "ex_registries =
     \<lparr>globalDataCollectorRegistry = Map.empty, globalAnalyzerRegistry = Map.empty,
      globalKnowledgeBaseRegistry = Map.empty, globalLLMRegistry = Map.empty,
      globalActionRegistry = [''restart-pod'' \<mapsto> ex_restart_pod,
                              ''restart-hint'' \<mapsto> ex_restart_hint]\<rparr>"

definition ex_state :: "nat state" where
  "ex_state = \<lparr>world = 0, calls = []\<rparr>"

text \<open>The analysis result of the scenario, and a diagnosis to merge planned suggestions into.\<close>

definition ex_analysis :: AnalysisResult where
  "ex_analysis =
     \<lparr>ar_ID = ''run-1'', ar_Timestamp = 0, ar_Duration = 1, ar_Status = AnalysisStatusCompleted,
      ar_Issues = [ex_finding],
      ar_AnalyzersRun = [''kubernetes-pod-analyzer (Completed)'',
                         ''business-log-analyzer (Skipped)'', ''broken-analyzer (Failed)''],
      ar_Error = ''''\<rparr>"

definition ex_diagnosis :: DiagnosisResult where
  "ex_diagnosis =
     \<lparr>dr_AnalysisResultID = ''run-1'', dr_Timestamp = 0, dr_Duration = 1,
      dr_RootCause = ''The pod crashes at start-up.'',
      dr_Suggestions = [ex_suggestion ''Restart pod X'' ActionTypeSuggestion ''LLM''],
      dr_LLMInteraction = None, dr_KnowledgeBaseHits = [], dr_Error = ''''\<rparr>"

section \<open>Properties\<close>

lemmas ex_defs =
  ex_finding_def ex_k8s_collector_def ex_business_collector_def ex_pod_analyzer_def
  ex_log_analyzer_def ex_broken_analyzer_def ex_response_def ex_mock_llm_def ex_failing_llm_def
  ex_suggestion_def ex_restart_hint_def ex_scale_hint_def ex_restart_pod_def
  ex_provider_config_def ex_config_def ex_env_def ex_engine_def ex_registries_def ex_state_def
  ex_analysis_def ex_diagnosis_def

subsection \<open>Merging the suggestions\<close>

lemma seed_loop_eq: "seed_loop xs m = m \<union> sug_Description ` set xs"
  by (induction xs arbitrary: m) auto

lemma merge_loop_append: "merge_loop B C m = C @ merge_loop B [] m"
proof (induction B arbitrary: C m)
  case Nil
  show ?case by simp
next
  case (Cons s B)
  show ?case
    using Cons.IH [of "C @ [s]"] Cons.IH [of "[s]"] Cons.IH [of C] by simp
qed

lemma merge_loop_subseq: "subseq (merge_loop B [] m) B"
proof (induction B arbitrary: m)
  case Nil
  show ?case by simp
next
  case (Cons s B)
  show ?case
    using Cons.IH [of m] Cons.IH [of "insert (sug_Description s) m"]
      merge_loop_append [of B "[s]"] by (auto intro: list_emb_Cons)
qed

lemma merge_loop_fresh:
  "distinct (map sug_Description (merge_loop B [] m)) \<and>
   sug_Description ` set (merge_loop B [] m) \<inter> m = {}"
proof (induction B arbitrary: m)
  case Nil
  show ?case by simp
next
  case (Cons s B)
  show ?case
    using Cons.IH [of m] Cons.IH [of "insert (sug_Description s) m"]
      merge_loop_append [of B "[s]"] by auto
qed

lemma merge_loop_covers:
  "s \<in> set B \<Longrightarrow> sug_Description s \<in> m \<union> sug_Description ` set (merge_loop B [] m)"
proof (induction B arbitrary: m)
  case Nil
  then show ?case by simp
next
  case (Cons b B)
  show ?case
    using Cons.prems Cons.IH [of m] Cons.IH [of "insert (sug_Description b) m"]
      merge_loop_append [of B "[b]"] by auto
qed

lemma SuggestActions_result:
  "fst (fst (SuggestActions e d \<sigma>)) =
     dr_Suggestions d @ merge_loop (fst (plan_loop e (actions e) d [] \<sigma>)) []
        (sug_Description ` set (dr_Suggestions d))"
  using merge_loop_append [of _ "dr_Suggestions d"]
  by (simp add: SuggestActions_def seed_loop_eq Let_def split: prod.splits)

lemma plan_loop_append:
  "plan_loop e (xs @ ys) d acc \<sigma> =
     (case plan_loop e xs d acc \<sigma> of (acc', \<sigma>') \<Rightarrow> plan_loop e ys d acc' \<sigma>')"
  by (induction xs arbitrary: acc \<sigma>) (simp_all split: prod.splits sum.splits)

lemma plan_loop_step:
  "\<exists>new \<sigma>'. \<forall>acc. plan_loop e (act # rest) d acc \<sigma> = plan_loop e rest d (acc @ new) \<sigma>'"
proof (cases "act_Type act = ActionTypeAutomated \<and> \<not> Enabled (cfg_Actions (config e))")
  case True
  then show ?thesis
    by (intro exI [of _ "[]"] exI [of _ \<sigma>]) simp
next
  case False
  obtain res \<sigma>' where c: "call_Plan act d \<sigma> = (res, \<sigma>')"
    by (cases "call_Plan act d \<sigma>")
  show ?thesis
  proof (cases res)
    case (Inl err)
    then show ?thesis
      using False c by (intro exI [of _ "[]"] exI [of _ \<sigma>']) auto
  next
    case (Inr planned)
    then show ?thesis
      using False c
      by (intro exI [of _ "if fst planned then [snd planned] else []"] exI [of _ \<sigma>'])
        (auto simp: case_prod_beta)
  qed
qed

lemma plan_loop_acc:
  "plan_loop e xs d acc \<sigma> = (acc @ fst (plan_loop e xs d [] \<sigma>), snd (plan_loop e xs d [] \<sigma>))"
proof (induction xs arbitrary: acc \<sigma>)
  case Nil
  show ?case by simp
next
  case (Cons act rest)
  obtain new \<sigma>' where
    step: "\<And>acc. plan_loop e (act # rest) d acc \<sigma> = plan_loop e rest d (acc @ new) \<sigma>'"
    using plan_loop_step [of e act rest d \<sigma>] by blast
  show ?case
    unfolding step using Cons.IH [of "acc @ new" \<sigma>'] Cons.IH [of "[] @ new" \<sigma>'] by simp
qed

lemma plan_loop_in_order:
  "fst (plan_loop e (xs @ ys) d [] \<sigma>) =
     fst (plan_loop e xs d [] \<sigma>) @ fst (plan_loop e ys d [] (snd (plan_loop e xs d [] \<sigma>)))"
  using plan_loop_acc [of e ys d "fst (plan_loop e xs d [] \<sigma>)" "snd (plan_loop e xs d [] \<sigma>)"]
  by (simp add: plan_loop_append case_prod_beta)

text \<open>
  Claim C1. The list \<open>SuggestActions\<close> returns begins with the suggestions of the diagnosis,
  in their order. What follows is a subsequence of the action-planned suggestions, which
  stand in the order of the engine's action list: for every split of that list, what its
  front part plans precedes what its back part plans. A suggestion at a position behind the diagnosis's own has
  a description that no earlier position of the returned list has, and every planned
  suggestion left out has its description in the returned list. With the diagnosis's list
  \<open>[a]\<close> and the planned list \<open>[b1, b2]\<close>, where \<open>a\<close> and \<open>b1\<close> are described
  "Restart pod X" and \<open>b2\<close> "Scale deployment Y", the returned list is \<open>[a, b2]\<close>.
\<close>

theorem SuggestActions_merge:
  "take (length (dr_Suggestions d)) (fst (fst (SuggestActions e d \<sigma>))) = dr_Suggestions d
   \<and> subseq (drop (length (dr_Suggestions d)) (fst (fst (SuggestActions e d \<sigma>))))
        (fst (plan_loop e (actions e) d [] \<sigma>))
   \<and> (\<forall>xs ys. actions e = xs @ ys \<longrightarrow>
        fst (plan_loop e (actions e) d [] \<sigma>) =
          fst (plan_loop e xs d [] \<sigma>) @ fst (plan_loop e ys d [] (snd (plan_loop e xs d [] \<sigma>))))
   \<and> (\<forall>j. length (dr_Suggestions d) \<le> j \<and> j < length (fst (fst (SuggestActions e d \<sigma>))) \<longrightarrow>
        (\<forall>i<j. sug_Description (fst (fst (SuggestActions e d \<sigma>)) ! i)
                 \<noteq> sug_Description (fst (fst (SuggestActions e d \<sigma>)) ! j)))
   \<and> (\<forall>s \<in> set (fst (plan_loop e (actions e) d [] \<sigma>)).
        sug_Description s \<in> sug_Description ` set (fst (fst (SuggestActions e d \<sigma>))))
   \<and> (dr_Suggestions d = [a] \<and> fst (plan_loop e (actions e) d [] \<sigma>) = [b1, b2]
        \<and> sug_Description a = ''Restart pod X'' \<and> sug_Description b1 = ''Restart pod X''
        \<and> sug_Description b2 = ''Scale deployment Y''
      \<longrightarrow> fst (fst (SuggestActions e d \<sigma>)) = [a, b2])"
proof -
  define A where "A = dr_Suggestions d"
  define B where "B = fst (plan_loop e (actions e) d [] \<sigma>)"
  define R where "R = merge_loop B [] (sug_Description ` set A)"
  have merged: "fst (fst (SuggestActions e d \<sigma>)) = A @ R"
    unfolding A_def B_def R_def by (rule SuggestActions_result)
  have sub: "subseq R B"
    unfolding R_def by (rule merge_loop_subseq)
  have dist: "distinct (map sug_Description R)"
    and disj: "sug_Description ` set R \<inter> sug_Description ` set A = {}"
    unfolding R_def using merge_loop_fresh [of B "sug_Description ` set A"] by blast+
  have cov: "\<forall>s \<in> set B. sug_Description s \<in> sug_Description ` set (A @ R)"
    unfolding R_def using merge_loop_covers [of _ B "sug_Description ` set A"] by auto
  have fresh: "sug_Description ((A @ R) ! i) \<noteq> sug_Description ((A @ R) ! j)"
    if "length A \<le> j" "j < length (A @ R)" "i < j" for i j
  proof (cases "i < length A")
    case True
    then have "sug_Description ((A @ R) ! i) \<in> sug_Description ` set A"
      by (simp add: nth_append)
    moreover have "sug_Description ((A @ R) ! j) \<in> sug_Description ` set R"
      using that by (simp add: nth_append)
    ultimately show ?thesis using disj by auto
  next
    case False
    then have "(A @ R) ! i = R ! (i - length A)" "(A @ R) ! j = R ! (j - length A)"
      "i - length A < j - length A" "j - length A < length R"
      using that by (auto simp: nth_append)
    then show ?thesis
      using dist by (auto simp: distinct_conv_nth)
  qed
  have ex: "A @ R = [a, b2]"
    if "A = [a]" "B = [b1, b2]" "sug_Description a = ''Restart pod X''"
      "sug_Description b1 = ''Restart pod X''" "sug_Description b2 = ''Scale deployment Y''"
    unfolding R_def using that by simp
  have ord: "B = fst (plan_loop e xs d [] \<sigma>) @ fst (plan_loop e ys d [] (snd (plan_loop e xs d [] \<sigma>)))"
    if "actions e = xs @ ys" for xs ys
    unfolding B_def that by (rule plan_loop_in_order)
  have "take (length A) (A @ R) = A" "subseq (drop (length A) (A @ R)) B"
    using sub by simp_all
  then show ?thesis
    unfolding merged A_def [symmetric] B_def [symmetric]
    using ord cov fresh ex by blast
qed

theorem SuggestActions_merge_witness:
  "dr_Suggestions ex_diagnosis = [ex_suggestion ''Restart pod X'' ActionTypeSuggestion ''LLM'']
   \<and> fst (plan_loop (ex_engine False ex_mock_llm) (actions (ex_engine False ex_mock_llm))
            ex_diagnosis [] ex_state)
       = [ex_suggestion ''Restart pod X'' ActionTypeSuggestion ''restart-hint'',
          ex_suggestion ''Scale deployment Y'' ActionTypeSuggestion ''scale-hint'']
   \<and> fst (fst (SuggestActions (ex_engine False ex_mock_llm) ex_diagnosis ex_state))
       = [ex_suggestion ''Restart pod X'' ActionTypeSuggestion ''LLM'',
          ex_suggestion ''Scale deployment Y'' ActionTypeSuggestion ''scale-hint'']"
proof -
  let ?e = "ex_engine False ex_mock_llm"
  have A: "dr_Suggestions ex_diagnosis = [ex_suggestion ''Restart pod X'' ActionTypeSuggestion ''LLM'']"
    by (simp add: ex_diagnosis_def)
  have B: "fst (plan_loop ?e (actions ?e) ex_diagnosis [] ex_state)
       = [ex_suggestion ''Restart pod X'' ActionTypeSuggestion ''restart-hint'',
          ex_suggestion ''Scale deployment Y'' ActionTypeSuggestion ''scale-hint'']"
    by (simp add: ex_engine_def ex_config_def ex_restart_hint_def ex_scale_hint_def
        ex_restart_pod_def call_Plan_def)
  have D: "sug_Description (ex_suggestion ''Restart pod X'' ActionTypeSuggestion ''LLM'') = ''Restart pod X''"
    "sug_Description (ex_suggestion ''Restart pod X'' ActionTypeSuggestion ''restart-hint'') = ''Restart pod X''"
    "sug_Description (ex_suggestion ''Scale deployment Y'' ActionTypeSuggestion ''scale-hint'') = ''Scale deployment Y''"
    by (simp_all add: ex_suggestion_def)
  show ?thesis
    using A B D SuggestActions_merge [of ex_diagnosis ?e ex_state
        "ex_suggestion ''Restart pod X'' ActionTypeSuggestion ''LLM''"
        "ex_suggestion ''Restart pod X'' ActionTypeSuggestion ''restart-hint''"
        "ex_suggestion ''Scale deployment Y'' ActionTypeSuggestion ''scale-hint''"]
    by blast
qed

subsection \<open>The execution gate\<close>

text \<open>
  Claim C2. Unless the suggestion is classified automatable, automation is enabled, and the
  suggestion's \<open>Source\<close> names a registered action that is itself classified automatable,
  \<open>ExecuteAction\<close> returns an error and leaves the state as it found it: no call into any
  action is added and the world is untouched. In particular this holds for a suggestion-only
  suggestion whatever the automation flag, and for an automatable suggestion while the flag
  is false.
\<close>

theorem ExecuteAction_gate:
  "(\<not> (sug_ActionType s = ActionTypeAutomated \<and> Enabled (cfg_Actions (config e))
        \<and> (\<exists>act. GetAction g (sug_Source s) = Some act \<and> act_Type act = ActionTypeAutomated))
    \<longrightarrow> (\<exists>err. fst (ExecuteAction e g s \<sigma>) = ('''', Some err)) \<and> snd (ExecuteAction e g s \<sigma>) = \<sigma>)
   \<and> (sug_ActionType s = ActionTypeSuggestion
    \<longrightarrow> (\<exists>err. fst (ExecuteAction e g s \<sigma>) = ('''', Some err)) \<and> snd (ExecuteAction e g s \<sigma>) = \<sigma>)
   \<and> (sug_ActionType s = ActionTypeAutomated \<and> \<not> Enabled (cfg_Actions (config e))
    \<longrightarrow> (\<exists>err. fst (ExecuteAction e g s \<sigma>) = ('''', Some err)) \<and> snd (ExecuteAction e g s \<sigma>) = \<sigma>)"
  by (auto simp: ExecuteAction_def Let_def split: option.splits)

theorem ExecuteAction_gate_witness:
  "ExecuteAction (ex_engine True ex_mock_llm) ex_registries
      (ex_suggestion ''Restart pod X'' ActionTypeSuggestion ''restart-hint'') ex_state
    = (('''', Some (New ErrorCodeInvalidInput ''action type is not automated''
                      ''suggestion ID analysis-1 has type Suggestion'')), ex_state)
   \<and> ExecuteAction (ex_engine False ex_mock_llm) ex_registries
      (ex_suggestion ''Restart Pod by deleting it'' ActionTypeAutomated ''restart-pod'') ex_state
    = (('''', Some (New ErrorCodeActionExecutionFailed ''automated actions disabled'' '''')),
       ex_state)
   \<and> ExecuteAction (ex_engine True ex_mock_llm) ex_registries
      (ex_suggestion ''Restart pod X'' ActionTypeAutomated ''restart-hint'') ex_state
    = (('''', Some (New ErrorCodeInvalidInput ''registered action is not automated''
                      (''action '' @ quote @ ''restart-hint'' @ quote
                         @ '' registered but is not automated type''))), ex_state)"
  using ExecuteAction_gate [of "ex_suggestion ''Restart pod X'' ActionTypeSuggestion ''restart-hint''"
      "ex_engine True ex_mock_llm" ex_registries ex_state]
    ExecuteAction_gate [of "ex_suggestion ''Restart Pod by deleting it'' ActionTypeAutomated ''restart-pod''"
      "ex_engine False ex_mock_llm" ex_registries ex_state]
    ExecuteAction_gate [of "ex_suggestion ''Restart pod X'' ActionTypeAutomated ''restart-hint''"
      "ex_engine True ex_mock_llm" ex_registries ex_state]
  by (simp add: ExecuteAction_def GetAction_def ex_defs)

subsection \<open>Diagnosis\<close>

lemma retrieve_knowledge_suggestions:
  "dr_Suggestions (fst (retrieve_knowledge e env q d pb \<sigma>)) = dr_Suggestions d"
  by (simp add: retrieve_knowledge_def split: option.splits prod.splits sum.splits)

lemma diagnosis_prompt_suggestions:
  "dr_Suggestions (fst (diagnosis_prompt e env ar d \<sigma>)) = dr_Suggestions d"
  using retrieve_knowledge_suggestions
    [of e env "''Diagnose Kubernetes issues: '' @ Sprint_Issues env (ar_Issues ar)" d
      "issues_prompt ar" \<sigma>]
  by (simp add: diagnosis_prompt_def Let_def case_prod_beta)

lemma RunDiagnosis_not_nil: "fst (fst (RunDiagnosis e env ar \<sigma>)) \<noteq> None"
  by (simp add: RunDiagnosis_def Let_def split: prod.splits option.splits)

lemma Error_Wrap_nonempty: "Error (Wrap code message err details) \<noteq> ''''"
  by (simp add: Wrap_def)

text \<open>
  Claim C3. For an analysis result with at least one finding: when the call of the
  reasoning backend that \<open>RunDiagnosis\<close> makes (with the final prompt, in the state reached
  after knowledge retrieval) returns an error, \<open>RunDiagnosis\<close> returns a diagnosis, not the
  nil pointer, whose root cause is the fixed failure marker, whose error field holds the
  text of the wrapped error, which is not empty, and whose suggestion list is empty.
\<close>

theorem RunDiagnosis_llm_error:
  assumes "ar_Issues ar \<noteq> []"
    and "diagnosis_prompt e env ar (new_diagnosis env ar) \<sigma> = (d1, finalPrompt, \<sigma>1)"
    and "fst (llm_GenerateText (llmProvider e) finalPrompt (world \<sigma>1)) = (llmResponse, Some err)"
  shows "\<exists>d. fst (fst (RunDiagnosis e env ar \<sigma>)) = Some d
           \<and> dr_RootCause d = ''Failed to perform diagnosis due to LLM error.''
           \<and> dr_Error d = Error (Wrap ErrorCodeLLMProviderError ''LLM diagnosis failed'' err '''')
           \<and> dr_Error d \<noteq> ''''
           \<and> dr_Suggestions d = []"
proof -
  have "dr_Suggestions d1 = dr_Suggestions (new_diagnosis env ar)"
    using diagnosis_prompt_suggestions [of e env ar "new_diagnosis env ar" \<sigma>] assms(2) by simp
  then have "dr_Suggestions d1 = []"
    by (simp add: new_diagnosis_def)
  moreover obtain w2 where
    "llm_GenerateText (llmProvider e) finalPrompt (world \<sigma>1) = ((llmResponse, Some err), w2)"
    using assms(3) by (cases "llm_GenerateText (llmProvider e) finalPrompt (world \<sigma>1)") auto
  ultimately show ?thesis
    using assms(1,2) Error_Wrap_nonempty [of ErrorCodeLLMProviderError]
    by (simp add: RunDiagnosis_def call_GenerateText_def Let_def)
qed

theorem RunDiagnosis_llm_error_witness:
  "ar_Issues ex_analysis \<noteq> []
   \<and> fst (llm_GenerateText (llmProvider (ex_engine True ex_failing_llm))
          (fst (snd (diagnosis_prompt (ex_engine True ex_failing_llm) ex_env ex_analysis
                       (new_diagnosis ex_env ex_analysis) ex_state)))
          (world (snd (snd (diagnosis_prompt (ex_engine True ex_failing_llm) ex_env ex_analysis
                       (new_diagnosis ex_env ex_analysis) ex_state)))))
       = ('''', Some (ForeignError ''deadline exceeded''))
   \<and> (\<exists>d. fst (fst (RunDiagnosis (ex_engine True ex_failing_llm) ex_env ex_analysis ex_state))
            = Some d
        \<and> dr_RootCause d = ''Failed to perform diagnosis due to LLM error.''
        \<and> dr_Error d = ''[LLM_PROVIDER_ERROR] LLM diagnosis failed:  (details: deadline exceeded, wrapped: %!v(MISSING))''
        \<and> dr_Suggestions d = [])"
proof -
  let ?e = "ex_engine True ex_failing_llm"
  let ?p = "diagnosis_prompt ?e ex_env ex_analysis (new_diagnosis ex_env ex_analysis) ex_state"
  have 1: "ar_Issues ex_analysis \<noteq> []"
    by (simp add: ex_analysis_def)
  have 2: "?p = (fst ?p, fst (snd ?p), snd (snd ?p))"
    by simp
  have 3: "fst (llm_GenerateText (llmProvider ?e) (fst (snd ?p)) (world (snd (snd ?p))))
             = ('''', Some (ForeignError ''deadline exceeded''))"
    by (simp add: ex_engine_def ex_failing_llm_def)
  show ?thesis
    using 1 3 RunDiagnosis_llm_error [OF 1 2 3]
    by (auto simp: Wrap_def ErrorCodeLLMProviderError_def)
qed

text \<open>
  Claim C4. For an analysis result without findings \<open>RunDiagnosis\<close> returns, with no error,
  a diagnosis whose root cause is "No issues detected.", whose suggestion list is empty and
  which has no reasoning exchange; the state is the one it was called in, so no collaborator
  (the reasoning backend among them) has been called.
\<close>

theorem RunDiagnosis_no_issues:
  "ar_Issues ar = [] \<Longrightarrow>
   \<exists>d. RunDiagnosis e env ar \<sigma> = ((Some d, None), \<sigma>)
     \<and> dr_RootCause d = ''No issues detected.'' \<and> dr_Suggestions d = []
     \<and> dr_LLMInteraction d = None"
  by (simp add: RunDiagnosis_def new_diagnosis_def)

theorem RunDiagnosis_no_issues_witness:
  "ar_Issues (ex_analysis\<lparr>ar_Issues := []\<rparr>) = []
   \<and> (\<exists>d. RunDiagnosis (ex_engine True ex_mock_llm) ex_env (ex_analysis\<lparr>ar_Issues := []\<rparr>) ex_state
            = ((Some d, None), ex_state)
        \<and> dr_RootCause d = ''No issues detected.'' \<and> dr_Suggestions d = []
        \<and> dr_LLMInteraction d = None)"
  using RunDiagnosis_no_issues [of "ex_analysis\<lparr>ar_Issues := []\<rparr>" "ex_engine True ex_mock_llm"
      ex_env ex_state]
  by simp

subsection \<open>Analysis\<close>

lemma missingData_iff: "missingData rs cd \<longleftrightarrow> \<not> set rs \<subseteq> dom cd"
  by (induction rs) auto

lemma analyze_loop_append:
  "analyze_loop (xs @ ys) cd r iss \<sigma> =
     (case analyze_loop xs cd r iss \<sigma> of (r1, iss1, \<sigma>1) \<Rightarrow> analyze_loop ys cd r1 iss1 \<sigma>1)"
  by (induction xs arbitrary: r iss \<sigma>) (simp_all split: prod.splits sum.splits)

text \<open>One analyzer: its audit entry, the issues it adds and the state it leaves.\<close>

lemma analyze_loop_step:
  "\<exists>entry found \<sigma>'.
     (\<forall>r iss. analyze_loop (a # ys) cd r iss \<sigma> =
        analyze_loop ys cd (r\<lparr>ar_AnalyzersRun := ar_AnalyzersRun r @ [entry]\<rparr>) (iss @ found) \<sigma>')
     \<and> entry = (if missingData (an_RequiredDataSources a) cd then an_Name a @ '' (Skipped)''
                else case fst (an_Analyze a (world \<sigma>)) of
                       Inl err \<Rightarrow> an_Name a @ '' (Failed)''
                     | Inr issues \<Rightarrow> an_Name a @ '' (Completed)'')
     \<and> (missingData (an_RequiredDataSources a) cd \<longrightarrow> found = [] \<and> \<sigma>' = \<sigma>)"
proof (cases "missingData (an_RequiredDataSources a) cd")
  case True
  then show ?thesis by simp
next
  case False
  obtain res w where c: "an_Analyze a (world \<sigma>) = (res, w)"
    by (cases "an_Analyze a (world \<sigma>)")
  show ?thesis
  proof (cases res)
    case (Inl err)
    then show ?thesis
      using False c
      by (intro exI [of _ "an_Name a @ '' (Failed)''"] exI [of _ "[]"]
          exI [of _ "\<lparr>world = w, calls = calls \<sigma> @ [AnalyzeCall (an_Name a)]\<rparr>"])
        (simp add: call_Analyze_def)
  next
    case (Inr issues)
    then show ?thesis
      using False c
      by (intro exI [of _ "an_Name a @ '' (Completed)''"] exI [of _ issues]
          exI [of _ "\<lparr>world = w, calls = calls \<sigma> @ [AnalyzeCall (an_Name a)]\<rparr>"])
        (simp add: call_Analyze_def)
  qed
qed

lemma analyze_loop_frame:
  "analyze_loop xs cd r iss \<sigma> =
     (r\<lparr>ar_AnalyzersRun := ar_AnalyzersRun r
          @ ar_AnalyzersRun (fst (analyze_loop xs cd (r\<lparr>ar_AnalyzersRun := []\<rparr>) [] \<sigma>))\<rparr>,
      iss @ fst (snd (analyze_loop xs cd (r\<lparr>ar_AnalyzersRun := []\<rparr>) [] \<sigma>)),
      snd (snd (analyze_loop xs cd (r\<lparr>ar_AnalyzersRun := []\<rparr>) [] \<sigma>)))"
proof (induction xs arbitrary: r iss \<sigma>)
  case Nil
  show ?case by simp
next
  case (Cons a ys)
  obtain entry found \<sigma>' where
    step: "\<And>r iss. analyze_loop (a # ys) cd r iss \<sigma> =
        analyze_loop ys cd (r\<lparr>ar_AnalyzersRun := ar_AnalyzersRun r @ [entry]\<rparr>) (iss @ found) \<sigma>'"
    using analyze_loop_step [of a ys cd \<sigma>] by blast
  show ?case
    unfolding step
    using Cons.IH [of "r\<lparr>ar_AnalyzersRun := ar_AnalyzersRun r @ [entry]\<rparr>" "iss @ found" \<sigma>']
      Cons.IH [of "r\<lparr>ar_AnalyzersRun := [entry]\<rparr>" found \<sigma>']
    by simp
qed

lemma analyze_loop_length:
  "length (ar_AnalyzersRun (fst (analyze_loop xs cd r iss \<sigma>))) = length (ar_AnalyzersRun r) + length xs"
proof (induction xs arbitrary: r iss \<sigma>)
  case Nil
  show ?case by simp
next
  case (Cons a ys)
  obtain entry found \<sigma>' where
    step: "\<And>r iss. analyze_loop (a # ys) cd r iss \<sigma> =
        analyze_loop ys cd (r\<lparr>ar_AnalyzersRun := ar_AnalyzersRun r @ [entry]\<rparr>) (iss @ found) \<sigma>'"
    using analyze_loop_step [of a ys cd \<sigma>] by blast
  show ?case
    unfolding step using Cons.IH by simp
qed

lemma analyze_loop_at:
  assumes "i < length as"
  shows "\<exists>entry found \<sigma>'.
     analyze_loop as cd r iss \<sigma> =
       analyze_loop (drop (Suc i) as) cd
         ((fst (analyze_loop (take i as) cd r iss \<sigma>))
            \<lparr>ar_AnalyzersRun := ar_AnalyzersRun (fst (analyze_loop (take i as) cd r iss \<sigma>)) @ [entry]\<rparr>)
         (fst (snd (analyze_loop (take i as) cd r iss \<sigma>)) @ found) \<sigma>'
     \<and> entry = (if missingData (an_RequiredDataSources (as ! i)) cd
                then an_Name (as ! i) @ '' (Skipped)''
                else case fst (an_Analyze (as ! i)
                                (world (snd (snd (analyze_loop (take i as) cd r iss \<sigma>))))) of
                       Inl err \<Rightarrow> an_Name (as ! i) @ '' (Failed)''
                     | Inr issues \<Rightarrow> an_Name (as ! i) @ '' (Completed)'')
     \<and> (missingData (an_RequiredDataSources (as ! i)) cd \<longrightarrow>
          found = [] \<and> \<sigma>' = snd (snd (analyze_loop (take i as) cd r iss \<sigma>)))"
proof -
  let ?pre = "analyze_loop (take i as) cd r iss \<sigma>"
  have as: "as = take i as @ (as ! i) # drop (Suc i) as"
    using assms by (simp add: id_take_nth_drop)
  have "analyze_loop as cd r iss \<sigma> =
      analyze_loop ((as ! i) # drop (Suc i) as) cd (fst ?pre) (fst (snd ?pre)) (snd (snd ?pre))"
    using analyze_loop_append [of "take i as" "(as ! i) # drop (Suc i) as" cd r iss \<sigma>] as
    by (simp add: case_prod_beta)
  then show ?thesis
    using analyze_loop_step [of "as ! i" "drop (Suc i) as" cd "snd (snd ?pre)"] by metis
qed

lemma analyze_loop_entry:
  assumes "i < length as"
  shows "ar_AnalyzersRun (fst (analyze_loop as cd r iss \<sigma>)) ! (length (ar_AnalyzersRun r) + i) =
     (if missingData (an_RequiredDataSources (as ! i)) cd
      then an_Name (as ! i) @ '' (Skipped)''
      else case fst (an_Analyze (as ! i)
                      (world (snd (snd (analyze_loop (take i as) cd r iss \<sigma>))))) of
             Inl err \<Rightarrow> an_Name (as ! i) @ '' (Failed)''
           | Inr issues \<Rightarrow> an_Name (as ! i) @ '' (Completed)'')"
proof -
  let ?pre = "analyze_loop (take i as) cd r iss \<sigma>"
  obtain entry found \<sigma>' where
    eq: "analyze_loop as cd r iss \<sigma> =
       analyze_loop (drop (Suc i) as) cd
         ((fst ?pre)\<lparr>ar_AnalyzersRun := ar_AnalyzersRun (fst ?pre) @ [entry]\<rparr>)
         (fst (snd ?pre) @ found) \<sigma>'"
    and entry: "entry = (if missingData (an_RequiredDataSources (as ! i)) cd
                then an_Name (as ! i) @ '' (Skipped)''
                else case fst (an_Analyze (as ! i) (world (snd (snd ?pre)))) of
                       Inl err \<Rightarrow> an_Name (as ! i) @ '' (Failed)''
                     | Inr issues \<Rightarrow> an_Name (as ! i) @ '' (Completed)'')"
    using analyze_loop_at [OF assms, of cd r iss \<sigma>] by blast
  have len: "length (ar_AnalyzersRun (fst ?pre)) = length (ar_AnalyzersRun r) + i"
    using assms by (simp add: analyze_loop_length)
  have "ar_AnalyzersRun (fst (analyze_loop as cd r iss \<sigma>)) =
      (ar_AnalyzersRun (fst ?pre) @ [entry])
        @ ar_AnalyzersRun (fst (analyze_loop (drop (Suc i) as) cd
            ((fst ?pre)\<lparr>ar_AnalyzersRun := []\<rparr>) [] \<sigma>'))"
    unfolding eq
    by (subst analyze_loop_frame) simp
  then show ?thesis
    using len entry by (simp add: nth_append)
qed

lemma RunAnalysis_result:
  "RunAnalysis e env opts \<sigma> =
     ((Some ((fst (analyze_loop (analyzers e) (collected e opts \<sigma>) (new_result env) []
                  (snd (collect_loop (dataCollectors e) opts Map.empty \<sigma>))))
              \<lparr>ar_Issues := fst (snd (analyze_loop (analyzers e) (collected e opts \<sigma>)
                    (new_result env) [] (snd (collect_loop (dataCollectors e) opts Map.empty \<sigma>)))),
               ar_Duration := time_Since env, ar_Status := AnalysisStatusCompleted\<rparr>), None),
      snd (snd (analyze_loop (analyzers e) (collected e opts \<sigma>) (new_result env) []
                  (snd (collect_loop (dataCollectors e) opts Map.empty \<sigma>)))))"
  by (simp add: RunAnalysis_def collected_def Let_def case_prod_beta)

text \<open>
  Claim C5. Let the analyzer at index \<open>i\<close> of a pass require a source type that is not among
  those collected without error. Then its entry in the audit list is its name followed by
  " (Skipped)", and the pass ends in the same state (the same calls made, the same world)
  and with the same issues as the pass of the engine without that analyzer, whose audit
  list is the same but for that entry: the analyzer is not invoked and adds no finding.
\<close>

theorem RunAnalysis_skipped_analyzer:
  assumes "i < length (analyzers e)"
    and "\<not> set (an_RequiredDataSources (analyzers e ! i)) \<subseteq> dom (collected e opts \<sigma>)"
  shows "\<exists>r r' \<sigma>'. RunAnalysis e env opts \<sigma> = ((Some r, None), \<sigma>')
      \<and> RunAnalysis (e\<lparr>analyzers := take i (analyzers e) @ drop (Suc i) (analyzers e)\<rparr>) env opts \<sigma>
          = ((Some r', None), \<sigma>')
      \<and> ar_AnalyzersRun r ! i = an_Name (analyzers e ! i) @ '' (Skipped)''
      \<and> ar_AnalyzersRun r' = take i (ar_AnalyzersRun r) @ drop (Suc i) (ar_AnalyzersRun r)
      \<and> ar_Issues r = ar_Issues r'"
proof -
  let ?as = "analyzers e"
  let ?cd = "collected e opts \<sigma>"
  let ?s1 = "snd (collect_loop (dataCollectors e) opts Map.empty \<sigma>)"
  let ?pre = "analyze_loop (take i ?as) ?cd (new_result env) [] ?s1"
  let ?ys = "drop (Suc i) ?as"
  let ?skip = "an_Name (?as ! i) @ '' (Skipped)''"
  let ?rest = "analyze_loop ?ys ?cd ((fst ?pre)\<lparr>ar_AnalyzersRun := []\<rparr>) [] (snd (snd ?pre))"
  let ?e' = "e\<lparr>analyzers := take i ?as @ ?ys\<rparr>"
  have miss: "missingData (an_RequiredDataSources (?as ! i)) ?cd"
    using assms(2) by (simp add: missingData_iff)
  have len: "length (ar_AnalyzersRun (fst ?pre)) = i"
    using assms(1) by (simp add: analyze_loop_length new_result_def)
  have "analyze_loop ?as ?cd (new_result env) [] ?s1 =
      analyze_loop ?ys ?cd ((fst ?pre)\<lparr>ar_AnalyzersRun := ar_AnalyzersRun (fst ?pre) @ [?skip]\<rparr>)
        (fst (snd ?pre)) (snd (snd ?pre))"
    using analyze_loop_at [OF assms(1), of ?cd "new_result env" "[]" ?s1] miss by auto
  then have full: "analyze_loop ?as ?cd (new_result env) [] ?s1 =
      ((fst ?pre)\<lparr>ar_AnalyzersRun := ar_AnalyzersRun (fst ?pre) @ [?skip] @ ar_AnalyzersRun (fst ?rest)\<rparr>,
       fst (snd ?pre) @ fst (snd ?rest), snd (snd ?rest))"
    by (subst (asm) analyze_loop_frame) simp
  have "analyze_loop (take i ?as @ ?ys) ?cd (new_result env) [] ?s1 =
      analyze_loop ?ys ?cd (fst ?pre) (fst (snd ?pre)) (snd (snd ?pre))"
    by (simp add: analyze_loop_append case_prod_beta)
  then have without: "analyze_loop (take i ?as @ ?ys) ?cd (new_result env) [] ?s1 =
      ((fst ?pre)\<lparr>ar_AnalyzersRun := ar_AnalyzersRun (fst ?pre) @ ar_AnalyzersRun (fst ?rest)\<rparr>,
       fst (snd ?pre) @ fst (snd ?rest), snd (snd ?rest))"
    by (subst (asm) analyze_loop_frame) simp
  have cd': "collected ?e' opts \<sigma> = ?cd" "dataCollectors ?e' = dataCollectors e"
    "analyzers ?e' = take i ?as @ ?ys"
    by (simp_all add: collected_def)
  show ?thesis
    unfolding RunAnalysis_result cd' full without
    using len by (simp add: nth_append)
qed

theorem RunAnalysis_skipped_analyzer_witness:
  "1 < length (analyzers (ex_engine True ex_mock_llm))
   \<and> \<not> set (an_RequiredDataSources (analyzers (ex_engine True ex_mock_llm) ! 1))
          \<subseteq> dom (collected (ex_engine True ex_mock_llm) Map.empty ex_state)
   \<and> (\<exists>r r' \<sigma>'. RunAnalysis (ex_engine True ex_mock_llm) ex_env Map.empty ex_state = ((Some r, None), \<sigma>')
      \<and> RunAnalysis ((ex_engine True ex_mock_llm)\<lparr>analyzers := [ex_pod_analyzer, ex_broken_analyzer]\<rparr>)
           ex_env Map.empty ex_state = ((Some r', None), \<sigma>')
      \<and> ar_AnalyzersRun r ! 1 = ''business-log-analyzer (Skipped)''
      \<and> ar_Issues r = ar_Issues r')"
proof -
  let ?e = "ex_engine True ex_mock_llm"
  have 1: "1 < length (analyzers ?e)"
    by (simp add: ex_engine_def)
  have c: "dom (collected ?e Map.empty ex_state) = {DataSourceTypeKubernetesAPI}"
    by (simp add: collected_def ex_engine_def ex_k8s_collector_def ex_business_collector_def
        call_Collect_def)
  have 2: "\<not> set (an_RequiredDataSources (analyzers ?e ! 1)) \<subseteq> dom (collected ?e Map.empty ex_state)"
    unfolding c by (simp add: ex_engine_def ex_log_analyzer_def)
  have 3: "take 1 (analyzers ?e) @ drop (Suc 1) (analyzers ?e) = [ex_pod_analyzer, ex_broken_analyzer]"
    "an_Name (analyzers ?e ! 1) = ''business-log-analyzer''"
    by (simp_all add: ex_engine_def ex_log_analyzer_def)
  show ?thesis
    using 1 2 RunAnalysis_skipped_analyzer [OF 1 2, of ex_env] unfolding 3
    by auto
qed

text \<open>
  Claim C6. Every pass returns an analysis result, with no error, whose status is
  "completed", never "failed", whatever the analyzers did; the pass has no path that sets
  "failed". The audit list has one entry per analyzer, in order: " (Skipped)" for an
  analyzer with a required source type not collected, otherwise " (Failed)" when its
  \<open>Analyze\<close>, called in the state the analyzers before it have left, returns an error, and
  " (Completed)" when it returns issues. So a failure is recorded and the analyzers after
  it are still run.
\<close>

theorem RunAnalysis_always_completed:
  "(\<exists>r \<sigma>'. RunAnalysis e env opts \<sigma> = ((Some r, None), \<sigma>')
       \<and> ar_Status r = AnalysisStatusCompleted \<and> ar_Status r \<noteq> AnalysisStatusFailed
       \<and> length (ar_AnalyzersRun r) = length (analyzers e))
   \<and> (\<forall>i r \<sigma>'. i < length (analyzers e) \<and> RunAnalysis e env opts \<sigma> = ((Some r, None), \<sigma>') \<longrightarrow>
        ar_AnalyzersRun r ! i =
          (if \<not> set (an_RequiredDataSources (analyzers e ! i)) \<subseteq> dom (collected e opts \<sigma>)
           then an_Name (analyzers e ! i) @ '' (Skipped)''
           else case fst (an_Analyze (analyzers e ! i)
                           (world (state_before_analyzer e env opts \<sigma> i))) of
                  Inl err \<Rightarrow> an_Name (analyzers e ! i) @ '' (Failed)''
                | Inr issues \<Rightarrow> an_Name (analyzers e ! i) @ '' (Completed)''))"
proof (intro conjI allI impI)
  show "\<exists>r \<sigma>'. RunAnalysis e env opts \<sigma> = ((Some r, None), \<sigma>')
       \<and> ar_Status r = AnalysisStatusCompleted \<and> ar_Status r \<noteq> AnalysisStatusFailed
       \<and> length (ar_AnalyzersRun r) = length (analyzers e)"
    unfolding RunAnalysis_result
    by (simp add: analyze_loop_length new_result_def)
next
  fix i r \<sigma>'
  assume a: "i < length (analyzers e) \<and> RunAnalysis e env opts \<sigma> = ((Some r, None), \<sigma>')"
  then have i: "i < length (analyzers e)" by simp
  have sb: "state_before_analyzer e env opts \<sigma> i =
      snd (snd (analyze_loop (take i (analyzers e)) (collected e opts \<sigma>) (new_result env) []
                  (snd (collect_loop (dataCollectors e) opts Map.empty \<sigma>))))"
    by (simp add: state_before_analyzer_def collected_def case_prod_beta)
  have "ar_AnalyzersRun r = ar_AnalyzersRun (fst (analyze_loop (analyzers e) (collected e opts \<sigma>)
      (new_result env) [] (snd (collect_loop (dataCollectors e) opts Map.empty \<sigma>))))"
    using a unfolding RunAnalysis_result by auto
  then show "ar_AnalyzersRun r ! i =
          (if \<not> set (an_RequiredDataSources (analyzers e ! i)) \<subseteq> dom (collected e opts \<sigma>)
           then an_Name (analyzers e ! i) @ '' (Skipped)''
           else case fst (an_Analyze (analyzers e ! i)
                           (world (state_before_analyzer e env opts \<sigma> i))) of
                  Inl err \<Rightarrow> an_Name (analyzers e ! i) @ '' (Failed)''
                | Inr issues \<Rightarrow> an_Name (analyzers e ! i) @ '' (Completed)'')"
    using analyze_loop_entry [OF i, of "collected e opts \<sigma>" "new_result env" "[]"
        "snd (collect_loop (dataCollectors e) opts Map.empty \<sigma>)"]
    unfolding sb by (simp add: new_result_def missingData_iff)
qed

theorem RunAnalysis_always_completed_witness:
  "RunAnalysis (ex_engine True ex_mock_llm) ex_env Map.empty ex_state
     = ((Some ex_analysis, None),
        \<lparr>world = 4, calls = [CollectCall ''k8s-collector'', CollectCall ''business-collector'',
                             AnalyzeCall ''kubernetes-pod-analyzer'', AnalyzeCall ''broken-analyzer'']\<rparr>)
   \<and> ar_Status ex_analysis = AnalysisStatusCompleted
   \<and> fst (an_Analyze (analyzers (ex_engine True ex_mock_llm) ! 2)
           (world (state_before_analyzer (ex_engine True ex_mock_llm) ex_env Map.empty ex_state 2)))
       = Inl (ForeignError ''analysis failed'')
   \<and> ar_AnalyzersRun ex_analysis ! 2 = ''broken-analyzer (Failed)''"
proof -
  let ?e = "ex_engine True ex_mock_llm"
  have run: "RunAnalysis ?e ex_env Map.empty ex_state
     = ((Some ex_analysis, None),
        \<lparr>world = 4, calls = [CollectCall ''k8s-collector'', CollectCall ''business-collector'',
                             AnalyzeCall ''kubernetes-pod-analyzer'', AnalyzeCall ''broken-analyzer'']\<rparr>)"
    by (simp add: RunAnalysis_def new_result_def ex_defs call_Collect_def call_Analyze_def)
  have fails: "fst (an_Analyze (analyzers ?e ! 2) (world (state_before_analyzer ?e ex_env Map.empty ex_state 2)))
       = Inl (ForeignError ''analysis failed'')"
    by (simp add: ex_engine_def ex_broken_analyzer_def)
  have "2 < length (analyzers ?e)"
    by (simp add: ex_engine_def)
  then show ?thesis
    using run fails RunAnalysis_always_completed [of ?e ex_env Map.empty ex_state]
    by (simp add: ex_analysis_def)
qed

subsection \<open>Planning with automation disabled\<close>

lemma plan_loop_config:
  "config e' = config e \<Longrightarrow> plan_loop e' as d acc \<sigma> = plan_loop e as d acc \<sigma>"
  by (induction as arbitrary: acc \<sigma>) (simp_all split: prod.splits sum.splits)

lemma plan_loop_disabled:
  "\<not> Enabled (cfg_Actions (config e)) \<Longrightarrow>
   plan_loop e as d acc \<sigma> =
     plan_loop e (filter (\<lambda>a. act_Type a \<noteq> ActionTypeAutomated) as) d acc \<sigma>"
  by (induction as arbitrary: acc \<sigma>) (simp_all split: prod.splits sum.splits)

lemma plan_loop_calls:
  "calls (snd (plan_loop e as d acc \<sigma>)) =
     calls \<sigma> @ map (\<lambda>a. PlanCall (act_Name a))
       (filter (\<lambda>a. \<not> (act_Type a = ActionTypeAutomated \<and> \<not> Enabled (cfg_Actions (config e)))) as)"
  by (induction as arbitrary: acc \<sigma>)
    (auto simp: call_Plan_def split: prod.splits sum.splits)

text \<open>
  What the planning loop does while the automation flag is false: it passes over every
  action classified automatable without calling its \<open>Plan\<close>. \<open>SuggestActions\<close> then
  returns what it returns with those actions removed from the engine, and the calls it
  makes are the \<open>Plan\<close> calls of the other actions, in their order.
\<close>

lemma SuggestActions_disabled_skips_automated:
  assumes "\<not> Enabled (cfg_Actions (config e))"
  shows "SuggestActions e d \<sigma> =
      SuggestActions (e\<lparr>actions := filter (\<lambda>a. act_Type a \<noteq> ActionTypeAutomated) (actions e)\<rparr>) d \<sigma>
    \<and> calls (snd (SuggestActions e d \<sigma>)) =
        calls \<sigma> @ map (\<lambda>a. PlanCall (act_Name a))
                    (filter (\<lambda>a. act_Type a \<noteq> ActionTypeAutomated) (actions e))"
proof -
  let ?na = "filter (\<lambda>a. act_Type a \<noteq> ActionTypeAutomated) (actions e)"
  have "plan_loop (e\<lparr>actions := ?na\<rparr>) ?na d [] \<sigma> = plan_loop e (actions e) d [] \<sigma>"
    using plan_loop_config [of "e\<lparr>actions := ?na\<rparr>" e ?na d "[]" \<sigma>]
      plan_loop_disabled [OF assms, of "actions e" d "[]" \<sigma>] by simp
  then have 1: "SuggestActions e d \<sigma> = SuggestActions (e\<lparr>actions := ?na\<rparr>) d \<sigma>"
    by (simp add: SuggestActions_def)
  have "calls (snd (SuggestActions e d \<sigma>)) = calls (snd (plan_loop e (actions e) d [] \<sigma>))"
    by (simp add: SuggestActions_def Let_def case_prod_beta)
  then have 2: "calls (snd (SuggestActions e d \<sigma>)) =
        calls \<sigma> @ map (\<lambda>a. PlanCall (act_Name a)) ?na"
    using assms by (simp add: plan_loop_calls)
  show ?thesis
    using 1 2 by simp
qed

text \<open>
  While the flag is false \<open>ExecuteAction\<close> rejects every suggestion and leaves the state
  as it found it: no suggestion is passed to an action's \<open>Execute\<close>.
\<close>

lemma ExecuteAction_disabled:
  "\<not> Enabled (cfg_Actions (config e)) \<Longrightarrow> \<exists>err. ExecuteAction e g s \<sigma> = (('''', Some err), \<sigma>)"
  by (simp add: ExecuteAction_def)

text \<open>
  Claim C7 says that, with the automation flag false, \<open>SuggestActions\<close> still asks every
  registered automatable action to plan, so that its relevant suggestion is in the returned
  list as information, and that such a suggestion is never executed. The code does not do
  the first. In the installation with the flag false the engine holds the automatable
  action \<open>restart-pod\<close>, whose \<open>Plan\<close> finds every diagnosis relevant; \<open>SuggestActions\<close>
  calls \<open>Plan\<close> of the two other actions only and returns the diagnosis's suggestion and
  the one of \<open>scale-hint\<close>, without the suggestion of \<open>restart-pod\<close>. \<open>ExecuteAction\<close> on
  that suggestion returns an error and calls nothing.
\<close>

theorem SuggestActions_disabled_failing_input:
  "\<not> Enabled (cfg_Actions (config (ex_engine False ex_mock_llm)))
   \<and> actions (ex_engine False ex_mock_llm) = [ex_restart_hint, ex_scale_hint, ex_restart_pod]
   \<and> act_Type ex_restart_pod = ActionTypeAutomated
   \<and> (\<forall>w. fst (act_Plan ex_restart_pod ex_diagnosis w) =
         Inr (True, ex_suggestion ''Restart Pod by deleting it'' ActionTypeAutomated ''restart-pod''))
   \<and> calls (snd (SuggestActions (ex_engine False ex_mock_llm) ex_diagnosis ex_state)) =
       [PlanCall ''restart-hint'', PlanCall ''scale-hint'']
   \<and> PlanCall ''restart-pod''
       \<notin> set (calls (snd (SuggestActions (ex_engine False ex_mock_llm) ex_diagnosis ex_state)))
   \<and> fst (fst (SuggestActions (ex_engine False ex_mock_llm) ex_diagnosis ex_state)) =
       [ex_suggestion ''Restart pod X'' ActionTypeSuggestion ''LLM'',
        ex_suggestion ''Scale deployment Y'' ActionTypeSuggestion ''scale-hint'']
   \<and> ex_suggestion ''Restart Pod by deleting it'' ActionTypeAutomated ''restart-pod''
       \<notin> set (fst (fst (SuggestActions (ex_engine False ex_mock_llm) ex_diagnosis ex_state)))
   \<and> ExecuteAction (ex_engine False ex_mock_llm) ex_registries
        (ex_suggestion ''Restart Pod by deleting it'' ActionTypeAutomated ''restart-pod'') ex_state
       = (('''', Some (New ErrorCodeActionExecutionFailed ''automated actions disabled'' '''')),
          ex_state)"
proof -
  let ?e = "ex_engine False ex_mock_llm"
  have run: "SuggestActions ?e ex_diagnosis ex_state =
      (([ex_suggestion ''Restart pod X'' ActionTypeSuggestion ''LLM'',
         ex_suggestion ''Scale deployment Y'' ActionTypeSuggestion ''scale-hint''], None),
       \<lparr>world = 2, calls = [PlanCall ''restart-hint'', PlanCall ''scale-hint'']\<rparr>)"
    by (simp add: SuggestActions_def call_Plan_def ex_defs)
  have given: "\<not> Enabled (cfg_Actions (config ?e))"
    "actions ?e = [ex_restart_hint, ex_scale_hint, ex_restart_pod]"
    "act_Type ex_restart_pod = ActionTypeAutomated"
    "\<forall>w. fst (act_Plan ex_restart_pod ex_diagnosis w) =
         Inr (True, ex_suggestion ''Restart Pod by deleting it'' ActionTypeAutomated ''restart-pod'')"
    by (simp_all add: ex_engine_def ex_config_def ex_restart_pod_def)
  have absent: "ex_suggestion ''Restart Pod by deleting it'' ActionTypeAutomated ''restart-pod''
       \<notin> set [ex_suggestion ''Restart pod X'' ActionTypeSuggestion ''LLM'',
                ex_suggestion ''Scale deployment Y'' ActionTypeSuggestion ''scale-hint'']"
    by (simp add: ex_suggestion_def)
  have exec: "ExecuteAction ?e ex_registries
        (ex_suggestion ''Restart Pod by deleting it'' ActionTypeAutomated ''restart-pod'') ex_state
       = (('''', Some (New ErrorCodeActionExecutionFailed ''automated actions disabled'' '''')),
          ex_state)"
    by (simp add: ExecuteAction_def ex_engine_def ex_config_def ex_suggestion_def)
  show ?thesis
    unfolding run using given absent exec by simp
qed

subsection \<open>Registration\<close>

lemma register_twice_fatal:
  "(an_Name a' = an_Name a \<longrightarrow>
      (\<exists>msg. and_then (RegisterAnalyzer a g) (RegisterAnalyzer a') = Panic msg
         \<and> (\<forall>f. and_then (and_then (RegisterAnalyzer a g) (RegisterAnalyzer a')) f = Panic msg)))
   \<and> (act_Name b' = act_Name b \<longrightarrow>
      (\<exists>msg. and_then (RegisterAction b g) (RegisterAction b') = Panic msg
         \<and> (\<forall>f. and_then (and_then (RegisterAction b g) (RegisterAction b')) f = Panic msg)))
   \<and> (dc_Name c' = dc_Name c \<longrightarrow>
      (\<exists>msg. and_then (RegisterDataCollector c g) (RegisterDataCollector c') = Panic msg
         \<and> (\<forall>f. and_then (and_then (RegisterDataCollector c g) (RegisterDataCollector c')) f
                = Panic msg)))
   \<and> (kb_Name k' = kb_Name k \<longrightarrow>
      (\<exists>msg. and_then (RegisterKnowledgeBase k g) (RegisterKnowledgeBase k') = Panic msg
         \<and> (\<forall>f. and_then (and_then (RegisterKnowledgeBase k g) (RegisterKnowledgeBase k')) f
                = Panic msg)))
   \<and> (llm_Name l' = llm_Name l \<longrightarrow>
      (\<exists>msg. and_then (RegisterLLMProvider l g) (RegisterLLMProvider l') = Panic msg
         \<and> (\<forall>f. and_then (and_then (RegisterLLMProvider l g) (RegisterLLMProvider l')) f
                = Panic msg)))
   \<and> (globalAnalyzerRegistry g (an_Name a) \<noteq> None \<longrightarrow>
        RegisterAnalyzer a g =
          Panic (''analyzer with name '' @ quote @ an_Name a @ quote @ '' already registered''))
   \<and> (globalActionRegistry g (act_Name b) \<noteq> None \<longrightarrow>
        RegisterAction b g =
          Panic (''action with name '' @ quote @ act_Name b @ quote @ '' already registered''))
   \<and> (globalAnalyzerRegistry g (an_Name a) = None \<and> globalActionRegistry g (act_Name b) = None
        \<and> an_Name a = act_Name b \<longrightarrow>
        (\<exists>g'. and_then (RegisterAnalyzer a g) (RegisterAction b) = Return g'
            \<and> globalAnalyzerRegistry g' (an_Name a) = Some a
            \<and> globalActionRegistry g' (act_Name b) = Some b)
        \<and> (\<exists>g'. and_then (RegisterAction b g) (RegisterAnalyzer a) = Return g'
            \<and> globalAnalyzerRegistry g' (an_Name a) = Some a
            \<and> globalActionRegistry g' (act_Name b) = Some b))"
proof (intro conjI impI)
  assume "an_Name a' = an_Name a"
  then show "\<exists>msg. and_then (RegisterAnalyzer a g) (RegisterAnalyzer a') = Panic msg
         \<and> (\<forall>f. and_then (and_then (RegisterAnalyzer a g) (RegisterAnalyzer a')) f = Panic msg)"
    by (simp add: RegisterAnalyzer_def Let_def)
next
  assume "act_Name b' = act_Name b"
  then show "\<exists>msg. and_then (RegisterAction b g) (RegisterAction b') = Panic msg
         \<and> (\<forall>f. and_then (and_then (RegisterAction b g) (RegisterAction b')) f = Panic msg)"
    by (simp add: RegisterAction_def Let_def)
next
  assume "dc_Name c' = dc_Name c"
  then show "\<exists>msg. and_then (RegisterDataCollector c g) (RegisterDataCollector c') = Panic msg
         \<and> (\<forall>f. and_then (and_then (RegisterDataCollector c g) (RegisterDataCollector c')) f
                = Panic msg)"
    by (simp add: RegisterDataCollector_def Let_def)
next
  assume "kb_Name k' = kb_Name k"
  then show "\<exists>msg. and_then (RegisterKnowledgeBase k g) (RegisterKnowledgeBase k') = Panic msg
         \<and> (\<forall>f. and_then (and_then (RegisterKnowledgeBase k g) (RegisterKnowledgeBase k')) f
                = Panic msg)"
    by (simp add: RegisterKnowledgeBase_def Let_def)
next
  assume "llm_Name l' = llm_Name l"
  then show "\<exists>msg. and_then (RegisterLLMProvider l g) (RegisterLLMProvider l') = Panic msg
         \<and> (\<forall>f. and_then (and_then (RegisterLLMProvider l g) (RegisterLLMProvider l')) f
                = Panic msg)"
    by (simp add: RegisterLLMProvider_def Let_def)
next
  assume "globalAnalyzerRegistry g (an_Name a) \<noteq> None"
  then show "RegisterAnalyzer a g =
          Panic (''analyzer with name '' @ quote @ an_Name a @ quote @ '' already registered'')"
    by (simp add: RegisterAnalyzer_def Let_def)
next
  assume "globalActionRegistry g (act_Name b) \<noteq> None"
  then show "RegisterAction b g =
          Panic (''action with name '' @ quote @ act_Name b @ quote @ '' already registered'')"
    by (simp add: RegisterAction_def Let_def)
next
  assume "globalAnalyzerRegistry g (an_Name a) = None \<and> globalActionRegistry g (act_Name b) = None
        \<and> an_Name a = act_Name b"
  then show "\<exists>g'. and_then (RegisterAnalyzer a g) (RegisterAction b) = Return g'
            \<and> globalAnalyzerRegistry g' (an_Name a) = Some a
            \<and> globalActionRegistry g' (act_Name b) = Some b"
    by (auto simp: RegisterAnalyzer_def RegisterAction_def Let_def)
next
  assume "globalAnalyzerRegistry g (an_Name a) = None \<and> globalActionRegistry g (act_Name b) = None
        \<and> an_Name a = act_Name b"
  then show "\<exists>g'. and_then (RegisterAction b g) (RegisterAnalyzer a) = Return g'
            \<and> globalAnalyzerRegistry g' (an_Name a) = Some a
            \<and> globalActionRegistry g' (act_Name b) = Some b"
    by (auto simp: RegisterAnalyzer_def RegisterAction_def Let_def)
qed

text \<open>Each registration function on a name its registry holds, and on one it does not.\<close>

lemma register_each:
  "(globalDataCollectorRegistry g (dc_Name c) \<noteq> None \<longrightarrow>
        RegisterDataCollector c g =
          Panic (''data collector with name '' @ quote @ dc_Name c @ quote @ '' already registered''))
   \<and> (globalKnowledgeBaseRegistry g (kb_Name k) \<noteq> None \<longrightarrow>
        RegisterKnowledgeBase k g =
          Panic (''knowledge base provider with name '' @ quote @ kb_Name k @ quote
                   @ '' already registered''))
   \<and> (globalLLMRegistry g (llm_Name l) \<noteq> None \<longrightarrow>
        RegisterLLMProvider l g =
          Panic (''LLM provider with name '' @ quote @ llm_Name l @ quote @ '' already registered''))
   \<and> (globalDataCollectorRegistry g (dc_Name c) = None \<longrightarrow>
        RegisterDataCollector c g =
          Return (g\<lparr>globalDataCollectorRegistry := (globalDataCollectorRegistry g)(dc_Name c \<mapsto> c)\<rparr>))
   \<and> (globalAnalyzerRegistry g (an_Name a) = None \<longrightarrow>
        RegisterAnalyzer a g =
          Return (g\<lparr>globalAnalyzerRegistry := (globalAnalyzerRegistry g)(an_Name a \<mapsto> a)\<rparr>))
   \<and> (globalKnowledgeBaseRegistry g (kb_Name k) = None \<longrightarrow>
        RegisterKnowledgeBase k g =
          Return (g\<lparr>globalKnowledgeBaseRegistry := (globalKnowledgeBaseRegistry g)(kb_Name k \<mapsto> k)\<rparr>))
   \<and> (globalLLMRegistry g (llm_Name l) = None \<longrightarrow>
        RegisterLLMProvider l g =
          Return (g\<lparr>globalLLMRegistry := (globalLLMRegistry g)(llm_Name l \<mapsto> l)\<rparr>))
   \<and> (globalActionRegistry g (act_Name b) = None \<longrightarrow>
        RegisterAction b g =
          Return (g\<lparr>globalActionRegistry := (globalActionRegistry g)(act_Name b \<mapsto> b)\<rparr>))"
  by (simp add: RegisterDataCollector_def RegisterAnalyzer_def RegisterKnowledgeBase_def
      RegisterLLMProvider_def RegisterAction_def Let_def)

lemma register_present:
  "registered g (registry_of x) (name_of x) \<noteq> None \<Longrightarrow> \<exists>msg. register x g = Panic msg"
  by (cases x)
    (auto simp: RegisterDataCollector_def RegisterAnalyzer_def RegisterKnowledgeBase_def
      RegisterLLMProvider_def RegisterAction_def Let_def)

lemma register_fresh:
  assumes "registered g (registry_of x) (name_of x) = None"
  shows "\<exists>g'. register x g = Return g'
      \<and> registered g' (registry_of x) (name_of x) = Some x
      \<and> (\<forall>r n. r \<noteq> registry_of x \<or> n \<noteq> name_of x \<longrightarrow> registered g' r n = registered g r n)"
proof (cases x)
  case (ADataCollector c)
  let ?g = "g\<lparr>globalDataCollectorRegistry := (globalDataCollectorRegistry g)(dc_Name c \<mapsto> c)\<rparr>"
  have "registered ?g r n = registered g r n" if "r \<noteq> DataCollectors \<or> n \<noteq> dc_Name c" for r n
    using that by (cases r) auto
  then show ?thesis
    using assms ADataCollector
    by (intro exI [of _ ?g]) (simp add: RegisterDataCollector_def Let_def)
next
  case (AnAnalyzer a)
  let ?g = "g\<lparr>globalAnalyzerRegistry := (globalAnalyzerRegistry g)(an_Name a \<mapsto> a)\<rparr>"
  have "registered ?g r n = registered g r n" if "r \<noteq> Analyzers \<or> n \<noteq> an_Name a" for r n
    using that by (cases r) auto
  then show ?thesis
    using assms AnAnalyzer
    by (intro exI [of _ ?g]) (simp add: RegisterAnalyzer_def Let_def)
next
  case (AKnowledgeBase k)
  let ?g = "g\<lparr>globalKnowledgeBaseRegistry := (globalKnowledgeBaseRegistry g)(kb_Name k \<mapsto> k)\<rparr>"
  have "registered ?g r n = registered g r n" if "r \<noteq> KnowledgeBases \<or> n \<noteq> kb_Name k" for r n
    using that by (cases r) auto
  then show ?thesis
    using assms AKnowledgeBase
    by (intro exI [of _ ?g]) (simp add: RegisterKnowledgeBase_def Let_def)
next
  case (AnLLM l)
  let ?g = "g\<lparr>globalLLMRegistry := (globalLLMRegistry g)(llm_Name l \<mapsto> l)\<rparr>"
  have "registered ?g r n = registered g r n" if "r \<noteq> LLMProviders \<or> n \<noteq> llm_Name l" for r n
    using that by (cases r) auto
  then show ?thesis
    using assms AnLLM
    by (intro exI [of _ ?g]) (simp add: RegisterLLMProvider_def Let_def)
next
  case (AnAction b)
  let ?g = "g\<lparr>globalActionRegistry := (globalActionRegistry g)(act_Name b \<mapsto> b)\<rparr>"
  have "registered ?g r n = registered g r n" if "r \<noteq> Actions \<or> n \<noteq> act_Name b" for r n
    using that by (cases r) auto
  then show ?thesis
    using assms AnAction
    by (intro exI [of _ ?g]) (simp add: RegisterAction_def Let_def)
qed

lemma register_same_registry:
  assumes "registry_of y = registry_of x" and "name_of y = name_of x"
    and "registered g (registry_of x) (name_of x) = None"
  shows "\<exists>g1 msg. register x g = Return g1 \<and> register y g1 = Panic msg
      \<and> (\<forall>f. and_then (and_then (register x g) (register y)) f = Panic msg)"
proof -
  obtain g1 where 1: "register x g = Return g1"
    and 2: "registered g1 (registry_of x) (name_of x) = Some x"
    using register_fresh [OF assms(3)] by blast
  have "registered g1 (registry_of y) (name_of y) \<noteq> None"
    using 2 assms(1,2) by simp
  then obtain msg where "register y g1 = Panic msg"
    using register_present by blast
  then show ?thesis
    using 1 by simp
qed

lemma register_different_registries:
  assumes "registry_of y \<noteq> registry_of x"
    and "registered g (registry_of x) (name_of x) = None"
    and "registered g (registry_of y) (name_of y) = None"
  shows "\<exists>g'. and_then (register x g) (register y) = Return g'
      \<and> registered g' (registry_of x) (name_of x) = Some x
      \<and> registered g' (registry_of y) (name_of y) = Some y"
proof -
  obtain g1 where 1: "register x g = Return g1"
    and 2: "registered g1 (registry_of x) (name_of x) = Some x"
    and 3: "\<forall>r n. r \<noteq> registry_of x \<or> n \<noteq> name_of x \<longrightarrow> registered g1 r n = registered g r n"
    using register_fresh [OF assms(2)] by blast
  have "registered g1 (registry_of y) (name_of y) = None"
    using 3 assms(1,3) by simp
  then obtain g2 where 4: "register y g1 = Return g2"
    and 5: "registered g2 (registry_of y) (name_of y) = Some y"
    and 6: "\<forall>r n. r \<noteq> registry_of y \<or> n \<noteq> name_of y \<longrightarrow> registered g2 r n = registered g1 r n"
    using register_fresh [of g1 y] by blast
  have "registered g2 (registry_of x) (name_of x) = Some x"
    using 6 2 assms(1) by metis
  then show ?thesis
    using 1 4 5 by simp
qed

lemma register_any:
  "(registered g (registry_of x) (name_of x) \<noteq> None \<longrightarrow> (\<exists>msg. register x g = Panic msg))
   \<and> (registered g (registry_of x) (name_of x) = None \<longrightarrow>
        (\<exists>g'. register x g = Return g'
           \<and> registered g' (registry_of x) (name_of x) = Some x
           \<and> (\<forall>r n. r \<noteq> registry_of x \<or> n \<noteq> name_of x \<longrightarrow>
                 registered g' r n = registered g r n)))
   \<and> (registry_of y = registry_of x \<and> name_of y = name_of x
        \<and> registered g (registry_of x) (name_of x) = None \<longrightarrow>
        (\<exists>g1 msg. register x g = Return g1 \<and> register y g1 = Panic msg
           \<and> (\<forall>f. and_then (and_then (register x g) (register y)) f = Panic msg)))
   \<and> (registry_of y \<noteq> registry_of x \<and> name_of y = name_of x
        \<and> registered g (registry_of x) (name_of x) = None
        \<and> registered g (registry_of y) (name_of y) = None \<longrightarrow>
        (\<exists>g'. and_then (register x g) (register y) = Return g'
           \<and> registered g' (registry_of x) (name_of x) = Some x
           \<and> registered g' (registry_of y) (name_of y) = Some y))"
  using register_present [of g x] register_fresh [of g x] register_same_registry [of y x g]
    register_different_registries [of y x g]
  by blast

text \<open>
  Claim C8. In each of the five registries, two registrations under one name, one after the
  other, end in a panic from whatever registries they start: the second is not survived,
  and nothing sequenced after it runs. Each of the five registration functions panics, with
  its message, when its own registry holds the name, and otherwise returns with the
  implementation entered under its name in its own registry, whatever the other registries
  hold. For implementations \<open>x\<close> and \<open>y\<close> of any of the five kinds: registering \<open>x\<close>
  under a name its registry holds is a panic; under a new name it enters \<open>x\<close> and changes
  no other entry of any registry; if \<open>y\<close> is of the same registry and name as \<open>x\<close>, whose
  name is new, then \<open>x\<close> is registered and registering \<open>y\<close> next is a panic, after which
  nothing runs; if \<open>y\<close> is of another registry than \<open>x\<close> and has the same name, new to
  both registries, then both are registered. In particular an analyzer and an action with the
  same name are both registered, in either order.
\<close>

theorem register_duplicate_name_fatal:
  "((an_Name a' = an_Name a \<longrightarrow>
      (\<exists>msg. and_then (RegisterAnalyzer a g) (RegisterAnalyzer a') = Panic msg
         \<and> (\<forall>f. and_then (and_then (RegisterAnalyzer a g) (RegisterAnalyzer a')) f = Panic msg)))
   \<and> (act_Name b' = act_Name b \<longrightarrow>
      (\<exists>msg. and_then (RegisterAction b g) (RegisterAction b') = Panic msg
         \<and> (\<forall>f. and_then (and_then (RegisterAction b g) (RegisterAction b')) f = Panic msg)))
   \<and> (dc_Name c' = dc_Name c \<longrightarrow>
      (\<exists>msg. and_then (RegisterDataCollector c g) (RegisterDataCollector c') = Panic msg
         \<and> (\<forall>f. and_then (and_then (RegisterDataCollector c g) (RegisterDataCollector c')) f
                = Panic msg)))
   \<and> (kb_Name k' = kb_Name k \<longrightarrow>
      (\<exists>msg. and_then (RegisterKnowledgeBase k g) (RegisterKnowledgeBase k') = Panic msg
         \<and> (\<forall>f. and_then (and_then (RegisterKnowledgeBase k g) (RegisterKnowledgeBase k')) f
                = Panic msg)))
   \<and> (llm_Name l' = llm_Name l \<longrightarrow>
      (\<exists>msg. and_then (RegisterLLMProvider l g) (RegisterLLMProvider l') = Panic msg
         \<and> (\<forall>f. and_then (and_then (RegisterLLMProvider l g) (RegisterLLMProvider l')) f
                = Panic msg)))
   \<and> (globalAnalyzerRegistry g (an_Name a) \<noteq> None \<longrightarrow>
        RegisterAnalyzer a g =
          Panic (''analyzer with name '' @ quote @ an_Name a @ quote @ '' already registered''))
   \<and> (globalActionRegistry g (act_Name b) \<noteq> None \<longrightarrow>
        RegisterAction b g =
          Panic (''action with name '' @ quote @ act_Name b @ quote @ '' already registered''))
   \<and> (globalAnalyzerRegistry g (an_Name a) = None \<and> globalActionRegistry g (act_Name b) = None
        \<and> an_Name a = act_Name b \<longrightarrow>
        (\<exists>g'. and_then (RegisterAnalyzer a g) (RegisterAction b) = Return g'
            \<and> globalAnalyzerRegistry g' (an_Name a) = Some a
            \<and> globalActionRegistry g' (act_Name b) = Some b)
        \<and> (\<exists>g'. and_then (RegisterAction b g) (RegisterAnalyzer a) = Return g'
            \<and> globalAnalyzerRegistry g' (an_Name a) = Some a
            \<and> globalActionRegistry g' (act_Name b) = Some b)))
   \<and> ((globalDataCollectorRegistry g (dc_Name c) \<noteq> None \<longrightarrow>
        RegisterDataCollector c g =
          Panic (''data collector with name '' @ quote @ dc_Name c @ quote @ '' already registered''))
   \<and> (globalKnowledgeBaseRegistry g (kb_Name k) \<noteq> None \<longrightarrow>
        RegisterKnowledgeBase k g =
          Panic (''knowledge base provider with name '' @ quote @ kb_Name k @ quote
                   @ '' already registered''))
   \<and> (globalLLMRegistry g (llm_Name l) \<noteq> None \<longrightarrow>
        RegisterLLMProvider l g =
          Panic (''LLM provider with name '' @ quote @ llm_Name l @ quote @ '' already registered''))
   \<and> (globalDataCollectorRegistry g (dc_Name c) = None \<longrightarrow>
        RegisterDataCollector c g =
          Return (g\<lparr>globalDataCollectorRegistry := (globalDataCollectorRegistry g)(dc_Name c \<mapsto> c)\<rparr>))
   \<and> (globalAnalyzerRegistry g (an_Name a) = None \<longrightarrow>
        RegisterAnalyzer a g =
          Return (g\<lparr>globalAnalyzerRegistry := (globalAnalyzerRegistry g)(an_Name a \<mapsto> a)\<rparr>))
   \<and> (globalKnowledgeBaseRegistry g (kb_Name k) = None \<longrightarrow>
        RegisterKnowledgeBase k g =
          Return (g\<lparr>globalKnowledgeBaseRegistry := (globalKnowledgeBaseRegistry g)(kb_Name k \<mapsto> k)\<rparr>))
   \<and> (globalLLMRegistry g (llm_Name l) = None \<longrightarrow>
        RegisterLLMProvider l g =
          Return (g\<lparr>globalLLMRegistry := (globalLLMRegistry g)(llm_Name l \<mapsto> l)\<rparr>))
   \<and> (globalActionRegistry g (act_Name b) = None \<longrightarrow>
        RegisterAction b g =
          Return (g\<lparr>globalActionRegistry := (globalActionRegistry g)(act_Name b \<mapsto> b)\<rparr>)))
   \<and> ((registered g (registry_of x) (name_of x) \<noteq> None \<longrightarrow> (\<exists>msg. register x g = Panic msg))
   \<and> (registered g (registry_of x) (name_of x) = None \<longrightarrow>
        (\<exists>g'. register x g = Return g'
           \<and> registered g' (registry_of x) (name_of x) = Some x
           \<and> (\<forall>r n. r \<noteq> registry_of x \<or> n \<noteq> name_of x \<longrightarrow>
                 registered g' r n = registered g r n)))
   \<and> (registry_of y = registry_of x \<and> name_of y = name_of x
        \<and> registered g (registry_of x) (name_of x) = None \<longrightarrow>
        (\<exists>g1 msg. register x g = Return g1 \<and> register y g1 = Panic msg
           \<and> (\<forall>f. and_then (and_then (register x g) (register y)) f = Panic msg)))
   \<and> (registry_of y \<noteq> registry_of x \<and> name_of y = name_of x
        \<and> registered g (registry_of x) (name_of x) = None
        \<and> registered g (registry_of y) (name_of y) = None \<longrightarrow>
        (\<exists>g'. and_then (register x g) (register y) = Return g'
           \<and> registered g' (registry_of x) (name_of x) = Some x
           \<and> registered g' (registry_of y) (name_of y) = Some y)))"
  by (rule conjI [OF register_twice_fatal conjI [OF register_each register_any]])

theorem register_duplicate_name_fatal_witness:
  "(\<exists>msg. and_then (RegisterAnalyzer ex_pod_analyzer ex_registries) (RegisterAnalyzer ex_pod_analyzer)
            = Panic msg)
   \<and> globalActionRegistry ex_registries (act_Name ex_restart_pod) \<noteq> None
   \<and> RegisterAction ex_restart_pod ex_registries
       = Panic (''action with name '' @ quote @ ''restart-pod'' @ quote @ '' already registered'')
   \<and> globalAnalyzerRegistry ex_registries ''scale-hint'' = None
   \<and> globalActionRegistry ex_registries ''scale-hint'' = None
   \<and> (\<exists>g'. and_then (RegisterAnalyzer (ex_pod_analyzer\<lparr>an_Name := ''scale-hint''\<rparr>) ex_registries)
               (RegisterAction ex_scale_hint) = Return g'
          \<and> globalAnalyzerRegistry g' ''scale-hint'' = Some (ex_pod_analyzer\<lparr>an_Name := ''scale-hint''\<rparr>)
          \<and> globalActionRegistry g' ''scale-hint'' = Some ex_scale_hint)
   \<and> globalLLMRegistry ex_registries (llm_Name ex_mock_llm) = None
   \<and> RegisterLLMProvider ex_mock_llm ex_registries
       = Return (ex_registries\<lparr>globalLLMRegistry := [''mock'' \<mapsto> ex_mock_llm]\<rparr>)
   \<and> registry_of (AKnowledgeBase \<lparr>kb_Name = ''restart-pod'', kb_Retrieve = (\<lambda>q opts w. (Inr [], w))\<rparr>)
       \<noteq> registry_of (AnAction ex_restart_pod)
   \<and> registered ex_registries Actions ''restart-pod'' = Some (AnAction ex_restart_pod)
   \<and> registered ex_registries KnowledgeBases ''restart-pod'' = None
   \<and> (\<exists>g'. register (AKnowledgeBase \<lparr>kb_Name = ''restart-pod'',
                                        kb_Retrieve = (\<lambda>q opts w. (Inr [], w))\<rparr>) ex_registries
              = Return g'
          \<and> registered g' KnowledgeBases ''restart-pod''
              = Some (AKnowledgeBase \<lparr>kb_Name = ''restart-pod'',
                                      kb_Retrieve = (\<lambda>q opts w. (Inr [], w))\<rparr>)
          \<and> registered g' Actions ''restart-pod'' = Some (AnAction ex_restart_pod))
   \<and> (\<exists>g'. and_then (register (AnLLM (ex_mock_llm\<lparr>llm_Name := ''k8s-collector''\<rparr>)) ex_registries)
               (register (ADataCollector ex_k8s_collector)) = Return g'
          \<and> registered g' LLMProviders ''k8s-collector''
              = Some (AnLLM (ex_mock_llm\<lparr>llm_Name := ''k8s-collector''\<rparr>))
          \<and> registered g' DataCollectors ''k8s-collector'' = Some (ADataCollector ex_k8s_collector))
   \<and> (\<exists>g1 msg. register (ADataCollector ex_k8s_collector) ex_registries = Return g1
          \<and> register (ADataCollector ex_k8s_collector) g1 = Panic msg)"
proof -
  let ?a = "ex_pod_analyzer\<lparr>an_Name := ''scale-hint''\<rparr>"
  let ?kb = "\<lparr>kb_Name = ''restart-pod'', kb_Retrieve = (\<lambda>q opts (w::nat). (Inr [], w))\<rparr>"
  let ?llm = "ex_mock_llm\<lparr>llm_Name := ''k8s-collector''\<rparr>"
  note t1 = register_duplicate_name_fatal [where a = ex_pod_analyzer and a' = ex_pod_analyzer
      and g = ex_registries and b = ex_restart_pod and l = ex_mock_llm]
  note t2 = register_duplicate_name_fatal [where a = ?a and g = ex_registries and b = ex_scale_hint]
  note t3 = register_duplicate_name_fatal [where g = ex_registries and x = "AKnowledgeBase ?kb"]
  note t4 = register_duplicate_name_fatal [where g = ex_registries and x = "AnLLM ?llm"
      and y = "ADataCollector ex_k8s_collector"]
  note t5 = register_duplicate_name_fatal [where g = ex_registries
      and x = "ADataCollector ex_k8s_collector" and y = "ADataCollector ex_k8s_collector"]
  have n: "act_Name ex_restart_pod = ''restart-pod''" "an_Name ?a = ''scale-hint''"
    "act_Name ex_scale_hint = ''scale-hint''" "llm_Name ex_mock_llm = ''mock''"
    "dc_Name ex_k8s_collector = ''k8s-collector''"
    by (simp_all add: ex_restart_pod_def ex_scale_hint_def ex_mock_llm_def ex_k8s_collector_def)
  have present: "globalActionRegistry ex_registries (act_Name ex_restart_pod) \<noteq> None"
    by (simp add: ex_registries_def n)
  have fresh: "globalAnalyzerRegistry ex_registries (an_Name ?a) = None"
    "globalActionRegistry ex_registries (act_Name ex_scale_hint) = None"
    unfolding n by (simp_all add: ex_registries_def)
  have fresh_llm: "globalLLMRegistry ex_registries (llm_Name ex_mock_llm) = None"
    by (simp add: ex_registries_def)
  have same: "an_Name ?a = act_Name ex_scale_hint"
    unfolding n by simp
  have 1: "\<exists>msg. and_then (RegisterAnalyzer ex_pod_analyzer ex_registries)
                   (RegisterAnalyzer ex_pod_analyzer) = Panic msg"
    using conjunct1 [OF t1] by blast
  have 2: "RegisterAction ex_restart_pod ex_registries
       = Panic (''action with name '' @ quote @ act_Name ex_restart_pod @ quote @ '' already registered'')"
    using conjunct1 [OF t1] present by blast
  have 3: "\<exists>g'. and_then (RegisterAnalyzer ?a ex_registries) (RegisterAction ex_scale_hint) = Return g'
          \<and> globalAnalyzerRegistry g' (an_Name ?a) = Some ?a
          \<and> globalActionRegistry g' (act_Name ex_scale_hint) = Some ex_scale_hint"
    using conjunct1 [OF t2] fresh same by blast
  have 4: "RegisterLLMProvider ex_mock_llm ex_registries
       = Return (ex_registries\<lparr>globalLLMRegistry :=
                   (globalLLMRegistry ex_registries)(llm_Name ex_mock_llm \<mapsto> ex_mock_llm)\<rparr>)"
    using conjunct1 [OF conjunct2 [OF t1]] fresh_llm by blast
  have m: "(globalLLMRegistry ex_registries)(''mock'' \<mapsto> ex_mock_llm) = [''mock'' \<mapsto> ex_mock_llm]"
    by (simp add: ex_registries_def)
  have k: "registry_of (AKnowledgeBase ?kb) = KnowledgeBases" "name_of (AKnowledgeBase ?kb) = ''restart-pod''"
    "registry_of (AnAction ex_restart_pod) = Actions"
    "registry_of (AnLLM ?llm) = LLMProviders" "name_of (AnLLM ?llm) = ''k8s-collector''"
    "registry_of (ADataCollector ex_k8s_collector) = DataCollectors"
    "name_of (ADataCollector ex_k8s_collector) = ''k8s-collector''"
    by (simp_all add: n)
  have r: "registered ex_registries Actions ''restart-pod'' = Some (AnAction ex_restart_pod)"
    "registered ex_registries KnowledgeBases ''restart-pod'' = None"
    "registered ex_registries LLMProviders ''k8s-collector'' = None"
    "registered ex_registries DataCollectors ''k8s-collector'' = None"
    by (simp_all add: ex_registries_def)
  have 5: "\<exists>g'. register (AKnowledgeBase ?kb) ex_registries = Return g'
          \<and> registered g' KnowledgeBases ''restart-pod'' = Some (AKnowledgeBase ?kb)
          \<and> registered g' Actions ''restart-pod'' = Some (AnAction ex_restart_pod)"
  proof -
    obtain g' where g': "register (AKnowledgeBase ?kb) ex_registries = Return g'"
      "registered g' KnowledgeBases ''restart-pod'' = Some (AKnowledgeBase ?kb)"
      "\<forall>r n. r \<noteq> KnowledgeBases \<or> n \<noteq> ''restart-pod'' \<longrightarrow>
          registered g' r n = registered ex_registries r n"
      using conjunct2 [OF conjunct2 [OF t3]] r(2) unfolding k by blast
    have "Actions \<noteq> KnowledgeBases \<or> ''restart-pod'' \<noteq> ''restart-pod''"
      by simp
    then have "registered g' Actions ''restart-pod'' = registered ex_registries Actions ''restart-pod''"
      using g'(3) by blast
    then show ?thesis
      using g'(1,2) r(1) by simp
  qed
  have 6: "\<exists>g'. and_then (register (AnLLM ?llm) ex_registries)
               (register (ADataCollector ex_k8s_collector)) = Return g'
          \<and> registered g' LLMProviders ''k8s-collector'' = Some (AnLLM ?llm)
          \<and> registered g' DataCollectors ''k8s-collector'' = Some (ADataCollector ex_k8s_collector)"
    using conjunct2 [OF conjunct2 [OF t4]] r(3,4) unfolding k by simp
  have 7: "\<exists>g1 msg. register (ADataCollector ex_k8s_collector) ex_registries = Return g1
          \<and> register (ADataCollector ex_k8s_collector) g1 = Panic msg"
    using conjunct2 [OF conjunct2 [OF t5]] r(4) unfolding k by blast
  have 8: "registry_of (AKnowledgeBase ?kb) \<noteq> registry_of (AnAction ex_restart_pod)"
    by simp
  show ?thesis
    using 1 2 3 4 5 6 7 8 present fresh fresh_llm r(1,2) unfolding n m by simp
qed

subsection \<open>The prompt and the parsed answer\<close>

lemma issue_loop_step:
  "\<exists>pre post. \<forall>sb. issue_loop (x # rest) i sb = issue_loop rest (i + 1) (sb @ pre @ issue_Name x @ post)"
proof (cases "issue_Resource x")
  case None
  show ?thesis
    by (rule exI [of _ "''Issue '' @ Sprintf_d (i + 1) @ '':'' @ newline @ ''  Name: ''"],
        rule exI [of _ "newline @ ''  Severity: '' @ IssueSeverity_String (issue_Severity x) @ newline
                 @ ''  Message: '' @ issue_Message x @ newline @ newline"])
      (simp add: None Let_def WriteString_def)
next
  case (Some resource)
  show ?thesis
    by (rule exI [of _ "''Issue '' @ Sprintf_d (i + 1) @ '':'' @ newline @ ''  Name: ''"],
        rule exI [of _ "newline @ ''  Severity: '' @ IssueSeverity_String (issue_Severity x) @ newline
                 @ ''  Message: '' @ issue_Message x @ newline
                 @ ''  Resource: Type='' @ res_Type resource @ '', Name='' @ res_Name resource
                 @ '', Namespace='' @ res_Namespace resource
                 @ '', VCluster='' @ res_VCluster resource @ newline @ newline"])
      (simp add: Some Let_def WriteString_def)
qed

lemma issue_loop_extends: "\<exists>suffix. issue_loop issues i sb = sb @ suffix"
proof (induction issues arbitrary: i sb)
  case Nil
  show ?case by simp
next
  case (Cons x rest)
  obtain pre post where
    step: "issue_loop (x # rest) i sb = issue_loop rest (i + 1) (sb @ pre @ issue_Name x @ post)"
    using issue_loop_step [of x rest i] by blast
  obtain suffix where
    "issue_loop rest (i + 1) (sb @ pre @ issue_Name x @ post) = (sb @ pre @ issue_Name x @ post) @ suffix"
    using Cons.IH by blast
  then have "issue_loop (x # rest) i sb = sb @ (pre @ issue_Name x @ post @ suffix)"
    unfolding step by simp
  then show ?case by (rule exI)
qed

lemma issue_loop_contains_name:
  "issue \<in> set issues \<Longrightarrow> sublist (issue_Name issue) (issue_loop issues i sb)"
proof (induction issues arbitrary: i sb)
  case Nil
  then show ?case by simp
next
  case (Cons x rest)
  obtain pre post where
    step: "issue_loop (x # rest) i sb = issue_loop rest (i + 1) (sb @ pre @ issue_Name x @ post)"
    using issue_loop_step [of x rest i] by blast
  show ?case
  proof (cases "issue = x")
    case True
    obtain suffix where
      "issue_loop rest (i + 1) (sb @ pre @ issue_Name x @ post) = (sb @ pre @ issue_Name x @ post) @ suffix"
      using issue_loop_extends by blast
    then have "issue_loop (x # rest) i sb = (sb @ pre) @ issue_Name issue @ (post @ suffix)"
      unfolding step using True by simp
    then show ?thesis
      unfolding sublist_def by (intro exI)
  next
    case False
    then have "issue \<in> set rest"
      using Cons.prems by simp
    then show ?thesis
      unfolding step by (rule Cons.IH)
  qed
qed

lemma hit_loop_extends: "\<exists>suffix. hit_loop env hits sb = sb @ suffix"
proof (induction hits arbitrary: sb)
  case Nil
  show ?case by simp
next
  case (Cons hit rest)
  define block where "block = ''Source: '' @ hit_Source hit @ '' (Score: ''
      @ Sprintf_2f env (hit_Score hit) @ '')'' @ newline @ hit_Content hit @ newline @ newline"
  have step: "hit_loop env (hit # rest) sb = hit_loop env rest (sb @ block)"
    by (simp add: block_def Let_def WriteString_def)
  obtain suffix where "hit_loop env rest (sb @ block) = (sb @ block) @ suffix"
    using Cons.IH by blast
  then have "hit_loop env (hit # rest) sb = sb @ (block @ suffix)"
    unfolding step by simp
  then show ?case by (rule exI)
qed

lemma retrieve_knowledge_extends:
  "\<exists>suffix. fst (snd (retrieve_knowledge e env q d pb \<sigma>)) = pb @ suffix"
proof (cases "knowledgeBase e")
  case None
  then show ?thesis by (simp add: retrieve_knowledge_def)
next
  case (Some kb)
  obtain res \<sigma>' where c: "call_Retrieve kb q [''k'' \<mapsto> AnyInt 5] \<sigma> = (res, \<sigma>')"
    by (cases "call_Retrieve kb q [''k'' \<mapsto> AnyInt 5] \<sigma>")
  show ?thesis
  proof (cases res)
    case (Inl kbErr)
    then show ?thesis using Some c by (simp add: retrieve_knowledge_def)
  next
    case (Inr kbHits)
    obtain suffix where "hit_loop env kbHits
        (pb @ ''Relevant knowledge from SRE Knowledge Base:'' @ newline @ newline)
        = (pb @ ''Relevant knowledge from SRE Knowledge Base:'' @ newline @ newline) @ suffix"
      using hit_loop_extends by blast
    then show ?thesis
      using Some c Inr by (simp add: retrieve_knowledge_def WriteString_def)
  qed
qed

lemma diagnosis_prompt_contains_name:
  assumes "issue \<in> set (ar_Issues ar)"
  shows "sublist (issue_Name issue) (fst (snd (diagnosis_prompt e env ar d \<sigma>)))"
proof -
  let ?q = "''Diagnose Kubernetes issues: '' @ Sprint_Issues env (ar_Issues ar)"
  have "sublist (issue_Name issue) (issues_prompt ar)"
    using assms by (simp add: issues_prompt_def Let_def issue_loop_contains_name)
  then obtain pre post where ip: "issues_prompt ar = pre @ issue_Name issue @ post"
    unfolding sublist_def by blast
  obtain suffix where "fst (snd (retrieve_knowledge e env ?q d (issues_prompt ar) \<sigma>))
      = issues_prompt ar @ suffix"
    using retrieve_knowledge_extends by blast
  then have "\<exists>post'. fst (snd (diagnosis_prompt e env ar d \<sigma>)) = pre @ issue_Name issue @ post'"
    using ip by (simp add: diagnosis_prompt_def instructions_def Let_def WriteString_def
        case_prod_beta)
  then show ?thesis
    unfolding sublist_def by blast
qed

lemma suggestion_loop_eq:
  "suggestion_loop ps d =
     d\<lparr>dr_Suggestions := dr_Suggestions d @
          map (\<lambda>s. \<lparr>sug_IssueID = ''N/A'', sug_Description = s,
                     sug_ActionType = ActionTypeSuggestion, sug_Command = '''',
                     sug_Payload = Map.empty, sug_Confidence = 0.8, sug_Source = ''LLM''\<rparr>) ps\<rparr>"
  by (induction ps arbitrary: d) (simp_all add: Let_def)

text \<open>What \<open>RunDiagnosis\<close> returns when the reasoning backend answers.\<close>

lemma RunDiagnosis_success:
  assumes "ar_Issues ar \<noteq> []"
    and "diagnosis_prompt e env ar (new_diagnosis env ar) \<sigma> = (d1, finalPrompt, \<sigma>1)"
    and "llm_GenerateText (llmProvider e) finalPrompt (world \<sigma>1) = ((response, None), w2)"
  shows "\<exists>d. RunDiagnosis e env ar \<sigma> =
        ((Some d, None),
         \<lparr>world = w2, calls = calls \<sigma>1 @ [GenerateTextCall (llm_Name (llmProvider e)) finalPrompt]\<rparr>)
      \<and> dr_RootCause d = ''Parsing logic not yet implemented. Raw LLM response:'' @ newline @ response
      \<and> dr_Suggestions d =
          [\<lparr>sug_IssueID = ''N/A'',
            sug_Description = ''Parsing failed, cannot extract suggestions from raw response.'',
            sug_ActionType = ActionTypeSuggestion, sug_Command = '''',
            sug_Payload = Map.empty, sug_Confidence = 0.8, sug_Source = ''LLM''\<rparr>]
      \<and> dr_LLMInteraction d =
          Some \<lparr>li_Provider = llm_Name (llmProvider e),
                li_Model = pc_Model (GetEnabledLLMProvider env (cfg_LLM (config e))),
                li_Prompt = finalPrompt, li_Response = response\<rparr>
      \<and> dr_Error d = ''''"
proof -
  have "dr_Suggestions d1 = dr_Suggestions (new_diagnosis env ar)"
    "dr_Error d1 = dr_Error (new_diagnosis env ar)"
    using assms(2)
    by (auto simp: diagnosis_prompt_def retrieve_knowledge_def Let_def
        split: option.splits prod.splits sum.splits)
  then have "dr_Suggestions d1 = []" "dr_Error d1 = ''''"
    by (simp_all add: new_diagnosis_def)
  then show ?thesis
    using assms
    by (simp add: RunDiagnosis_def call_GenerateText_def Let_def parseLLMDiagnosisResponse_def
        suggestion_loop_eq)
qed

lemma placeholder_without_restart:
  "\<not> sublist ''restart'' ''Parsing failed, cannot extract suggestions from raw response.''"
  "\<not> sublist ''Restart'' ''Parsing failed, cannot extract suggestions from raw response.''"
  by code_simp+

lemma RunAnalysis_single_analyzer:
  assumes "analyzers e = [a]"
    and "set (an_RequiredDataSources a) \<subseteq> dom (collected e opts \<sigma>)"
    and "fst (an_Analyze a (world (state_before_analyzer e env opts \<sigma> 0))) = Inr issues"
  shows "\<exists>r \<sigma>'. RunAnalysis e env opts \<sigma> = ((Some r, None), \<sigma>')
      \<and> ar_Issues r = issues \<and> ar_Status r = AnalysisStatusCompleted"
proof -
  let ?s1 = "snd (collect_loop (dataCollectors e) opts Map.empty \<sigma>)"
  have sb: "state_before_analyzer e env opts \<sigma> 0 = ?s1"
    by (simp add: state_before_analyzer_def case_prod_beta)
  obtain w where c: "an_Analyze a (world ?s1) = (Inr issues, w)"
    using assms(3) unfolding sb by (cases "an_Analyze a (world ?s1)") auto
  have m: "\<not> missingData (an_RequiredDataSources a) (collected e opts \<sigma>)"
    using assms(2) by (simp add: missingData_iff)
  show ?thesis
    unfolding RunAnalysis_result assms(1)
    using m c by (simp add: call_Analyze_def)
qed

text \<open>
  Claim C9, as the code has it. Detection with one analyzer whose required source types
  were collected and which reports the one finding returns an analysis result with that
  finding and status "completed". For an analysis result with that finding, named
  "PodCrashLoopBackOff", the prompt sent to the reasoning backend contains that name; and
  when the backend answers without error, the diagnosis has a root cause that is not empty,
  the fixed text "Parsing logic not yet implemented. Raw LLM response:" and a line break
  followed by the raw answer, and exactly one suggestion, whose description is the fixed
  text "Parsing failed, cannot extract suggestions from raw response." and so contains
  neither "restart" nor "Restart": the parser of the source is a placeholder.
\<close>

theorem end_to_end_placeholder_parse:
  "(analyzers e = [a] \<and> set (an_RequiredDataSources a) \<subseteq> dom (collected e opts \<sigma>0)
      \<and> fst (an_Analyze a (world (state_before_analyzer e env opts \<sigma>0 0))) = Inr [finding]
    \<longrightarrow> (\<exists>r \<sigma>'. RunAnalysis e env opts \<sigma>0 = ((Some r, None), \<sigma>')
          \<and> ar_Issues r = [finding] \<and> ar_Status r = AnalysisStatusCompleted))
   \<and> (ar_Issues ar = [finding] \<and> issue_Name finding = ''PodCrashLoopBackOff''
      \<and> diagnosis_prompt e env ar (new_diagnosis env ar) \<sigma> = (d1, finalPrompt, \<sigma>1)
      \<and> llm_GenerateText (llmProvider e) finalPrompt (world \<sigma>1) = ((response, None), w2)
    \<longrightarrow> sublist ''PodCrashLoopBackOff'' finalPrompt
      \<and> (\<exists>d \<sigma>'. RunDiagnosis e env ar \<sigma> = ((Some d, None), \<sigma>')
          \<and> calls \<sigma>' = calls \<sigma>1 @ [GenerateTextCall (llm_Name (llmProvider e)) finalPrompt]
          \<and> dr_RootCause d
               = ''Parsing logic not yet implemented. Raw LLM response:'' @ newline @ response
          \<and> dr_RootCause d \<noteq> ''''
          \<and> dr_Suggestions d =
              [\<lparr>sug_IssueID = ''N/A'',
                sug_Description = ''Parsing failed, cannot extract suggestions from raw response.'',
                sug_ActionType = ActionTypeSuggestion, sug_Command = '''',
                sug_Payload = Map.empty, sug_Confidence = 0.8, sug_Source = ''LLM''\<rparr>]
          \<and> (\<forall>s \<in> set (dr_Suggestions d).
                \<not> sublist ''restart'' (sug_Description s)
                \<and> \<not> sublist ''Restart'' (sug_Description s))))"
proof (intro conjI impI)
  assume "analyzers e = [a] \<and> set (an_RequiredDataSources a) \<subseteq> dom (collected e opts \<sigma>0)
      \<and> fst (an_Analyze a (world (state_before_analyzer e env opts \<sigma>0 0))) = Inr [finding]"
  then show "\<exists>r \<sigma>'. RunAnalysis e env opts \<sigma>0 = ((Some r, None), \<sigma>')
          \<and> ar_Issues r = [finding] \<and> ar_Status r = AnalysisStatusCompleted"
    using RunAnalysis_single_analyzer [of e a opts \<sigma>0 env "[finding]"] by blast
next
  assume h: "ar_Issues ar = [finding] \<and> issue_Name finding = ''PodCrashLoopBackOff''
      \<and> diagnosis_prompt e env ar (new_diagnosis env ar) \<sigma> = (d1, finalPrompt, \<sigma>1)
      \<and> llm_GenerateText (llmProvider e) finalPrompt (world \<sigma>1) = ((response, None), w2)"
  then have "finding \<in> set (ar_Issues ar)"
    by simp
  then have "sublist (issue_Name finding) (fst (snd (diagnosis_prompt e env ar (new_diagnosis env ar) \<sigma>)))"
    by (rule diagnosis_prompt_contains_name)
  then show "sublist ''PodCrashLoopBackOff'' finalPrompt"
    using h by simp
next
  assume h: "ar_Issues ar = [finding] \<and> issue_Name finding = ''PodCrashLoopBackOff''
      \<and> diagnosis_prompt e env ar (new_diagnosis env ar) \<sigma> = (d1, finalPrompt, \<sigma>1)
      \<and> llm_GenerateText (llmProvider e) finalPrompt (world \<sigma>1) = ((response, None), w2)"
  then have ne: "ar_Issues ar \<noteq> []"
    by simp
  obtain d where d: "RunDiagnosis e env ar \<sigma> =
        ((Some d, None),
         \<lparr>world = w2, calls = calls \<sigma>1 @ [GenerateTextCall (llm_Name (llmProvider e)) finalPrompt]\<rparr>)"
    "dr_RootCause d = ''Parsing logic not yet implemented. Raw LLM response:'' @ newline @ response"
    "dr_Suggestions d =
          [\<lparr>sug_IssueID = ''N/A'',
            sug_Description = ''Parsing failed, cannot extract suggestions from raw response.'',
            sug_ActionType = ActionTypeSuggestion, sug_Command = '''',
            sug_Payload = Map.empty, sug_Confidence = 0.8, sug_Source = ''LLM''\<rparr>]"
    using RunDiagnosis_success [OF ne, of e env \<sigma> d1 finalPrompt \<sigma>1 response w2] h by blast
  have "dr_RootCause d \<noteq> ''''"
    unfolding d(2) by simp
  moreover have "\<forall>s \<in> set (dr_Suggestions d).
      \<not> sublist ''restart'' (sug_Description s) \<and> \<not> sublist ''Restart'' (sug_Description s)"
    unfolding d(3) using placeholder_without_restart by simp
  ultimately show "\<exists>d \<sigma>'. RunDiagnosis e env ar \<sigma> = ((Some d, None), \<sigma>')
          \<and> calls \<sigma>' = calls \<sigma>1 @ [GenerateTextCall (llm_Name (llmProvider e)) finalPrompt]
          \<and> dr_RootCause d
               = ''Parsing logic not yet implemented. Raw LLM response:'' @ newline @ response
          \<and> dr_RootCause d \<noteq> ''''
          \<and> dr_Suggestions d =
              [\<lparr>sug_IssueID = ''N/A'',
                sug_Description = ''Parsing failed, cannot extract suggestions from raw response.'',
                sug_ActionType = ActionTypeSuggestion, sug_Command = '''',
                sug_Payload = Map.empty, sug_Confidence = 0.8, sug_Source = ''LLM''\<rparr>]
          \<and> (\<forall>s \<in> set (dr_Suggestions d).
                \<not> sublist ''restart'' (sug_Description s)
                \<and> \<not> sublist ''Restart'' (sug_Description s))"
    using d by (intro exI [of _ d] exI [of _ "\<lparr>world = w2, calls = calls \<sigma>1 @ [GenerateTextCall (llm_Name (llmProvider e)) finalPrompt]\<rparr>"]) simp
qed

theorem end_to_end_placeholder_parse_witness:
  "analyzers ((ex_engine True ex_mock_llm)\<lparr>analyzers := [ex_pod_analyzer]\<rparr>) = [ex_pod_analyzer]
   \<and> set (an_RequiredDataSources ex_pod_analyzer)
        \<subseteq> dom (collected ((ex_engine True ex_mock_llm)\<lparr>analyzers := [ex_pod_analyzer]\<rparr>)
                  Map.empty ex_state)
   \<and> (\<exists>r \<sigma>'. RunAnalysis ((ex_engine True ex_mock_llm)\<lparr>analyzers := [ex_pod_analyzer]\<rparr>)
                ex_env Map.empty ex_state = ((Some r, None), \<sigma>')
          \<and> ar_Issues r = [ex_finding] \<and> ar_Status r = AnalysisStatusCompleted)
   \<and> ar_Issues ex_analysis = [ex_finding]
   \<and> issue_Name ex_finding = ''PodCrashLoopBackOff''
   \<and> sublist ''PodCrashLoopBackOff''
        (fst (snd (diagnosis_prompt ((ex_engine True ex_mock_llm)\<lparr>analyzers := [ex_pod_analyzer]\<rparr>)
                     ex_env ex_analysis (new_diagnosis ex_env ex_analysis) ex_state)))
   \<and> (\<exists>d \<sigma>'. RunDiagnosis ((ex_engine True ex_mock_llm)\<lparr>analyzers := [ex_pod_analyzer]\<rparr>)
                ex_env ex_analysis ex_state = ((Some d, None), \<sigma>')
          \<and> dr_RootCause d
               = ''Parsing logic not yet implemented. Raw LLM response:'' @ newline @ ex_response
          \<and> dr_Suggestions d =
              [\<lparr>sug_IssueID = ''N/A'',
                sug_Description = ''Parsing failed, cannot extract suggestions from raw response.'',
                sug_ActionType = ActionTypeSuggestion, sug_Command = '''',
                sug_Payload = Map.empty, sug_Confidence = 0.8, sug_Source = ''LLM''\<rparr>])"
proof -
  let ?e = "(ex_engine True ex_mock_llm)\<lparr>analyzers := [ex_pod_analyzer]\<rparr>"
  let ?p = "diagnosis_prompt ?e ex_env ex_analysis (new_diagnosis ex_env ex_analysis) ex_state"
  have 1: "analyzers ?e = [ex_pod_analyzer]"
    by simp
  have c: "dom (collected ?e Map.empty ex_state) = {DataSourceTypeKubernetesAPI}"
    by (simp add: collected_def ex_engine_def ex_k8s_collector_def ex_business_collector_def
        call_Collect_def)
  have 2: "set (an_RequiredDataSources ex_pod_analyzer) \<subseteq> dom (collected ?e Map.empty ex_state)"
    unfolding c by (simp add: ex_pod_analyzer_def)
  have 3: "fst (an_Analyze ex_pod_analyzer
                  (world (state_before_analyzer ?e ex_env Map.empty ex_state 0))) = Inr [ex_finding]"
    by (simp add: ex_pod_analyzer_def)
  have 4: "ar_Issues ex_analysis = [ex_finding]" "issue_Name ex_finding = ''PodCrashLoopBackOff''"
    by (simp_all add: ex_analysis_def ex_finding_def)
  have 5: "?p = (fst ?p, fst (snd ?p), snd (snd ?p))"
    by simp
  have 6: "llm_GenerateText (llmProvider ?e) (fst (snd ?p)) (world (snd (snd ?p)))
      = ((ex_response, None), Suc (world (snd (snd ?p))))"
    by (simp add: ex_engine_def ex_mock_llm_def)
  note t = end_to_end_placeholder_parse [of ?e ex_pod_analyzer Map.empty ex_state ex_env ex_finding
      ex_analysis ex_state "fst ?p" "fst (snd ?p)" "snd (snd ?p)" ex_response
      "Suc (world (snd (snd ?p)))"]
  have a: "\<exists>r \<sigma>'. RunAnalysis ?e ex_env Map.empty ex_state = ((Some r, None), \<sigma>')
          \<and> ar_Issues r = [ex_finding] \<and> ar_Status r = AnalysisStatusCompleted"
    using t 1 2 3 by blast
  have b: "sublist ''PodCrashLoopBackOff'' (fst (snd ?p))"
    using t 4 5 6 by blast
  have "\<exists>d \<sigma>'. RunDiagnosis ?e ex_env ex_analysis ex_state = ((Some d, None), \<sigma>')
          \<and> calls \<sigma>' = calls (snd (snd ?p)) @ [GenerateTextCall (llm_Name (llmProvider ?e)) (fst (snd ?p))]
          \<and> dr_RootCause d
               = ''Parsing logic not yet implemented. Raw LLM response:'' @ newline @ ex_response
          \<and> dr_RootCause d \<noteq> ''''
          \<and> dr_Suggestions d =
              [\<lparr>sug_IssueID = ''N/A'',
                sug_Description = ''Parsing failed, cannot extract suggestions from raw response.'',
                sug_ActionType = ActionTypeSuggestion, sug_Command = '''',
                sug_Payload = Map.empty, sug_Confidence = 0.8, sug_Source = ''LLM''\<rparr>]
          \<and> (\<forall>s \<in> set (dr_Suggestions d).
                \<not> sublist ''restart'' (sug_Description s)
                \<and> \<not> sublist ''Restart'' (sug_Description s))"
    using t 4 5 6 by blast
  then have d: "\<exists>d \<sigma>'. RunDiagnosis ?e ex_env ex_analysis ex_state = ((Some d, None), \<sigma>')
          \<and> dr_RootCause d
               = ''Parsing logic not yet implemented. Raw LLM response:'' @ newline @ ex_response
          \<and> dr_Suggestions d =
              [\<lparr>sug_IssueID = ''N/A'',
                sug_Description = ''Parsing failed, cannot extract suggestions from raw response.'',
                sug_ActionType = ActionTypeSuggestion, sug_Command = '''',
                sug_Payload = Map.empty, sug_Confidence = 0.8, sug_Source = ''LLM''\<rparr>]"
    by blast
  show ?thesis
    using 1 2 a 4 b d by (intro conjI)
qed

text \<open>
  The claim as stated fails in its last part: on the scenario's analysis result, with the
  backend answering "Root Cause: ...", "Suggestions:", "1. Restart the pod" on three lines,
  the diagnosis has a root cause, but none of its suggestions contains "restart" or
  "Restart".
\<close>

theorem end_to_end_counterexample:
  "ar_Issues ex_analysis = [ex_finding]
   \<and> issue_Name ex_finding = ''PodCrashLoopBackOff''
   \<and> (\<forall>prompt w. fst (llm_GenerateText ex_mock_llm prompt w)
         = (''Root Cause: ...'' @ newline @ ''Suggestions:'' @ newline @ ''1. Restart the pod'', None))
   \<and> (\<exists>d. fst (fst (RunDiagnosis (ex_engine True ex_mock_llm) ex_env ex_analysis ex_state)) = Some d
        \<and> dr_RootCause d \<noteq> ''''
        \<and> \<not> (\<exists>s \<in> set (dr_Suggestions d). sublist ''restart'' (sug_Description s))
        \<and> \<not> (\<exists>s \<in> set (dr_Suggestions d). sublist ''Restart'' (sug_Description s)))"
proof -
  let ?e = "ex_engine True ex_mock_llm"
  let ?p = "diagnosis_prompt ?e ex_env ex_analysis (new_diagnosis ex_env ex_analysis) ex_state"
  have 1: "ar_Issues ex_analysis = [ex_finding]" "issue_Name ex_finding = ''PodCrashLoopBackOff''"
    by (simp_all add: ex_analysis_def ex_finding_def)
  have 2: "\<forall>prompt w. fst (llm_GenerateText ex_mock_llm prompt w)
         = (''Root Cause: ...'' @ newline @ ''Suggestions:'' @ newline @ ''1. Restart the pod'', None)"
    by (simp add: ex_mock_llm_def ex_response_def)
  have ne: "ar_Issues ex_analysis \<noteq> []"
    using 1 by simp
  have p: "?p = (fst ?p, fst (snd ?p), snd (snd ?p))"
    by simp
  have g: "llm_GenerateText (llmProvider ?e) (fst (snd ?p)) (world (snd (snd ?p)))
      = ((ex_response, None), Suc (world (snd (snd ?p))))"
    by (simp add: ex_engine_def ex_mock_llm_def)
  obtain d where d: "fst (fst (RunDiagnosis ?e ex_env ex_analysis ex_state)) = Some d"
    "dr_RootCause d = ''Parsing logic not yet implemented. Raw LLM response:'' @ newline @ ex_response"
    "dr_Suggestions d =
          [\<lparr>sug_IssueID = ''N/A'',
            sug_Description = ''Parsing failed, cannot extract suggestions from raw response.'',
            sug_ActionType = ActionTypeSuggestion, sug_Command = '''',
            sug_Payload = Map.empty, sug_Confidence = 0.8, sug_Source = ''LLM''\<rparr>]"
    using RunDiagnosis_success [OF ne p g] by auto
  have "dr_RootCause d \<noteq> ''''"
    unfolding d(2) by simp
  moreover have "\<not> (\<exists>s \<in> set (dr_Suggestions d). sublist ''restart'' (sug_Description s))"
    "\<not> (\<exists>s \<in> set (dr_Suggestions d). sublist ''Restart'' (sug_Description s))"
    unfolding d(3) using placeholder_without_restart by simp_all
  ultimately have "\<exists>d. fst (fst (RunDiagnosis ?e ex_env ex_analysis ex_state)) = Some d
        \<and> dr_RootCause d \<noteq> ''''
        \<and> \<not> (\<exists>s \<in> set (dr_Suggestions d). sublist ''restart'' (sug_Description s))
        \<and> \<not> (\<exists>s \<in> set (dr_Suggestions d). sublist ''Restart'' (sug_Description s))"
    using d(1) by blast
  then show ?thesis
    using 1 2 by (intro conjI)
qed

subsection \<open>Suggestions of the reasoning backend are never executed\<close>

lemma RunDiagnosis_suggestions_from_llm:
  assumes "fst (fst (RunDiagnosis e env ar \<sigma>)) = Some d" and "s \<in> set (dr_Suggestions d)"
  shows "sug_ActionType s = ActionTypeSuggestion \<and> sug_Source s = ''LLM''"
proof -
  let ?p = "diagnosis_prompt e env ar (new_diagnosis env ar) \<sigma>"
  have empty: "dr_Suggestions (fst ?p) = []"
    using diagnosis_prompt_suggestions [of e env ar "new_diagnosis env ar" \<sigma>]
    by (simp add: new_diagnosis_def)
  show ?thesis
  proof (cases "length (ar_Issues ar) = 0")
    case True
    then show ?thesis
      using assms by (auto simp: RunDiagnosis_def new_diagnosis_def)
  next
    case False
    obtain r w where g: "llm_GenerateText (llmProvider e) (fst (snd ?p)) (world (snd (snd ?p))) = (r, w)"
      by (cases "llm_GenerateText (llmProvider e) (fst (snd ?p)) (world (snd (snd ?p)))")
    show ?thesis
    proof (cases "snd r")
      case None
      then show ?thesis
        using assms False g empty
        by (auto simp: RunDiagnosis_def call_GenerateText_def Let_def case_prod_beta
            parseLLMDiagnosisResponse_def suggestion_loop_eq split: option.splits)
    next
      case (Some err)
      then show ?thesis
        using assms False g empty
        by (auto simp: RunDiagnosis_def call_GenerateText_def Let_def case_prod_beta)
    qed
  qed
qed

text \<open>
  Claim C10. Every suggestion of a diagnosis that \<open>RunDiagnosis\<close> returns is classified
  suggestion-only and has the source "LLM"; so for every engine, registry and state,
  \<open>ExecuteAction\<close> on such a suggestion returns an error and leaves the state as it found
  it: no \<open>Execute\<close> is called.
\<close>

theorem llm_suggestions_never_executed:
  "\<forall>d s. fst (fst (RunDiagnosis e env ar \<sigma>)) = Some d \<and> s \<in> set (dr_Suggestions d) \<longrightarrow>
      sug_ActionType s = ActionTypeSuggestion \<and> sug_Source s = ''LLM''
      \<and> (\<forall>e' g \<sigma>'. \<exists>err. ExecuteAction e' g s \<sigma>' = (('''', Some err), \<sigma>'))"
proof (intro allI impI)
  fix d s
  assume "fst (fst (RunDiagnosis e env ar \<sigma>)) = Some d \<and> s \<in> set (dr_Suggestions d)"
  then have "sug_ActionType s = ActionTypeSuggestion \<and> sug_Source s = ''LLM''"
    using RunDiagnosis_suggestions_from_llm by blast
  then show "sug_ActionType s = ActionTypeSuggestion \<and> sug_Source s = ''LLM''
      \<and> (\<forall>e' g \<sigma>'. \<exists>err. ExecuteAction e' g s \<sigma>' = (('''', Some err), \<sigma>'))"
    by (simp add: ExecuteAction_def)
qed

theorem llm_suggestions_never_executed_witness:
  "\<exists>d s. fst (fst (RunDiagnosis (ex_engine True ex_mock_llm) ex_env ex_analysis ex_state)) = Some d
     \<and> s \<in> set (dr_Suggestions d)
     \<and> sug_Description s = ''Parsing failed, cannot extract suggestions from raw response.''
     \<and> sug_ActionType s = ActionTypeSuggestion \<and> sug_Source s = ''LLM''
     \<and> (\<exists>err. ExecuteAction (ex_engine True ex_mock_llm) ex_registries s ex_state
                = (('''', Some err), ex_state))"
proof -
  let ?e = "ex_engine True ex_mock_llm"
  let ?p = "diagnosis_prompt ?e ex_env ex_analysis (new_diagnosis ex_env ex_analysis) ex_state"
  let ?s = "\<lparr>sug_IssueID = ''N/A'',
            sug_Description = ''Parsing failed, cannot extract suggestions from raw response.'',
            sug_ActionType = ActionTypeSuggestion, sug_Command = '''',
            sug_Payload = Map.empty, sug_Confidence = 0.8, sug_Source = ''LLM''\<rparr>"
  have ne: "ar_Issues ex_analysis \<noteq> []"
    by (simp add: ex_analysis_def)
  have p: "?p = (fst ?p, fst (snd ?p), snd (snd ?p))"
    by simp
  have g: "llm_GenerateText (llmProvider ?e) (fst (snd ?p)) (world (snd (snd ?p)))
      = ((ex_response, None), Suc (world (snd (snd ?p))))"
    by (simp add: ex_engine_def ex_mock_llm_def)
  obtain d where d: "fst (fst (RunDiagnosis ?e ex_env ex_analysis ex_state)) = Some d"
    "dr_Suggestions d = [?s]"
    using RunDiagnosis_success [OF ne p g] by auto
  have s: "?s \<in> set (dr_Suggestions d)"
    unfolding d(2) by simp
  have "sug_ActionType ?s = ActionTypeSuggestion \<and> sug_Source ?s = ''LLM''
      \<and> (\<forall>e' g \<sigma>'. \<exists>err. ExecuteAction e' g ?s \<sigma>' = (('''', Some err), \<sigma>'))"
    using llm_suggestions_never_executed [of ?e ex_env ex_analysis ex_state] d(1) s by blast
  then show ?thesis
    using d(1) s by (intro exI [of _ d] exI [of _ ?s]) auto
qed

end
